theory Spec2Isabelle
  imports Complex_Main "HOL-Library.AList" "HOL-Library.Multiset"
begin

section \<open>JavaScript values\<close>

text \<open>
  A JavaScript number is a double: NaN, one of the two infinities, or a finite value.
  A finite double is read as the real number it denotes, and arithmetic on finite values
  is taken exact: the rounding of intermediate results, overflow inside arithmetic and the
  sign of zero are not modelled. Comparisons, \<open>isNaN\<close> and the treatment of NaN and of
  the infinities follow ECMAScript.
\<close>

datatype jsnum = NaN | Fin real | PInf | NInf

text \<open>The primitive values that reach the functions below (request fields, CSV cells).\<close>

datatype jsval = Undefined | Null | Bool bool | Num jsnum | Str string

fun isNaN :: "jsnum \<Rightarrow> bool" where
  "isNaN NaN = True"
| "isNaN _ = False"

text \<open>Truthiness, as tested by \<open>!x\<close>, \<open>x && y\<close> and \<open>x || y\<close>.\<close>

fun truthy :: "jsval \<Rightarrow> bool" where
  "truthy Undefined = False"
| "truthy Null = False"
| "truthy (Bool b) = b"
| "truthy (Num NaN) = False"
| "truthy (Num (Fin x)) = (x \<noteq> 0)"
| "truthy (Num _) = True"
| "truthy (Str s) = (s \<noteq> [])"

subsection \<open>Arithmetic and comparison of numbers\<close>

fun js_neg :: "jsnum \<Rightarrow> jsnum" where
  "js_neg NaN = NaN"
| "js_neg (Fin x) = Fin (- x)"
| "js_neg PInf = NInf"
| "js_neg NInf = PInf"

fun js_add :: "jsnum \<Rightarrow> jsnum \<Rightarrow> jsnum" where
  "js_add NaN _ = NaN"
| "js_add _ NaN = NaN"
| "js_add (Fin x) (Fin y) = Fin (x + y)"
| "js_add PInf NInf = NaN"
| "js_add NInf PInf = NaN"
| "js_add PInf _ = PInf"
| "js_add NInf _ = NInf"
| "js_add (Fin x) b = b"

definition js_sub :: "jsnum \<Rightarrow> jsnum \<Rightarrow> jsnum" where
  "js_sub a b = js_add a (js_neg b)"

text \<open>The sign of a non-NaN number, and the infinity of a given sign (NaN for sign 0).\<close>

fun sign_of :: "jsnum \<Rightarrow> real" where
  "sign_of (Fin x) = sgn x"
| "sign_of PInf = 1"
| "sign_of NInf = - 1"
| "sign_of NaN = 0"

definition inf_of_sign :: "real \<Rightarrow> jsnum" where
  "inf_of_sign s = (if s = 0 then NaN else if 0 < s then PInf else NInf)"

fun js_mul :: "jsnum \<Rightarrow> jsnum \<Rightarrow> jsnum" where
  "js_mul NaN _ = NaN"
| "js_mul _ NaN = NaN"
| "js_mul (Fin x) (Fin y) = Fin (x * y)"
| "js_mul a b = inf_of_sign (sign_of a * sign_of b)"

fun js_div :: "jsnum \<Rightarrow> jsnum \<Rightarrow> jsnum" where
  "js_div NaN _ = NaN"
| "js_div _ NaN = NaN"
| "js_div (Fin x) (Fin y) = (if y = 0 then inf_of_sign (sgn x) else Fin (x / y))"
| "js_div (Fin x) _ = Fin 0"
| "js_div a (Fin y) = inf_of_sign (sign_of a * (if 0 \<le> y then 1 else - 1))"
| "js_div _ _ = NaN"

text \<open>\<open>a <= b\<close> and \<open>a > b\<close>: false as soon as one side is NaN.\<close>

fun js_le :: "jsnum \<Rightarrow> jsnum \<Rightarrow> bool" where
  "js_le NaN _ = False"
| "js_le _ NaN = False"
| "js_le NInf _ = True"
| "js_le _ PInf = True"
| "js_le (Fin x) (Fin y) = (x \<le> y)"
| "js_le _ _ = False"

fun js_lt :: "jsnum \<Rightarrow> jsnum \<Rightarrow> bool" where
  "js_lt NaN _ = False"
| "js_lt _ NaN = False"
| "js_lt (Fin x) (Fin y) = (x < y)"
| "js_lt NInf NInf = False"
| "js_lt NInf _ = True"
| "js_lt PInf _ = False"
| "js_lt (Fin x) PInf = True"
| "js_lt (Fin x) NInf = False"

definition js_gt :: "jsnum \<Rightarrow> jsnum \<Rightarrow> bool" where
  "js_gt a b = js_lt b a"

definition js_ge :: "jsnum \<Rightarrow> jsnum \<Rightarrow> bool" where
  "js_ge a b = js_le b a"

subsection \<open>The Math object\<close>

definition Math_PI :: jsnum where
  "Math_PI = Fin pi"

fun Math_sin :: "jsnum \<Rightarrow> jsnum" where
  "Math_sin (Fin x) = Fin (sin x)"
| "Math_sin _ = NaN"

fun Math_cos :: "jsnum \<Rightarrow> jsnum" where
  "Math_cos (Fin x) = Fin (cos x)"
| "Math_cos _ = NaN"

fun Math_sqrt :: "jsnum \<Rightarrow> jsnum" where
  "Math_sqrt (Fin x) = (if x < 0 then NaN else Fin (sqrt x))"
| "Math_sqrt PInf = PInf"
| "Math_sqrt _ = NaN"

text \<open>The angle of the point \<open>(x, y)\<close>, in \<open>(-pi, pi]\<close>.\<close>

definition atan2_real :: "real \<Rightarrow> real \<Rightarrow> real" where
  "atan2_real y x =
     (if 0 < x then arctan (y / x)
      else if x < 0 then (if 0 \<le> y then arctan (y / x) + pi else arctan (y / x) - pi)
      else if 0 < y then pi / 2
      else if y < 0 then - (pi / 2)
      else 0)"

fun Math_atan2 :: "jsnum \<Rightarrow> jsnum \<Rightarrow> jsnum" where
  "Math_atan2 NaN _ = NaN"
| "Math_atan2 _ NaN = NaN"
| "Math_atan2 (Fin y) (Fin x) = Fin (atan2_real y x)"
| "Math_atan2 (Fin y) PInf = Fin 0"
| "Math_atan2 (Fin y) NInf = (if 0 \<le> y then Fin pi else Fin (- pi))"
| "Math_atan2 PInf (Fin x) = Fin (pi / 2)"
| "Math_atan2 PInf PInf = Fin (pi / 4)"
| "Math_atan2 PInf NInf = Fin (3 * pi / 4)"
| "Math_atan2 NInf (Fin x) = Fin (- (pi / 2))"
| "Math_atan2 NInf PInf = Fin (- (pi / 4))"
| "Math_atan2 NInf NInf = Fin (- (3 * pi / 4))"

text \<open>\<open>Math.round\<close> rounds to the nearest integer, a half towards plus infinity.\<close>

fun Math_round :: "jsnum \<Rightarrow> jsnum" where
  "Math_round (Fin x) = Fin (of_int \<lfloor>x + 1 / 2\<rfloor>)"
| "Math_round a = a"

subsection \<open>Strings\<close>

text \<open>
  Strings are sequences of ASCII characters. White space is the ASCII part of what
  \<open>trim\<close> and \<open>parseFloat\<close> strip: tab, line feed, vertical tab, form feed,
  carriage return and space.
\<close>

definition is_ws :: "char \<Rightarrow> bool" where
  "is_ws c = (of_char c \<in> {9, 10, 11, 12, 13, 32 :: nat})"

definition trim :: "string \<Rightarrow> string" where
  "trim s = rev (dropWhile is_ws (rev (dropWhile is_ws s)))"

definition lower_char :: "char \<Rightarrow> char" where
  "lower_char c =
     (case map_of (zip ''ABCDEFGHIJKLMNOPQRSTUVWXYZ'' ''abcdefghijklmnopqrstuvwxyz'') c of
        Some l \<Rightarrow> l
      | None \<Rightarrow> c)"

definition toLowerCase :: "string \<Rightarrow> string" where
  "toLowerCase s = map lower_char s"

fun starts_with :: "string \<Rightarrow> string \<Rightarrow> bool" where
  "starts_with s [] = True"
| "starts_with [] (p # ps) = False"
| "starts_with (c # cs) (p # ps) = (c = p \<and> starts_with cs ps)"

text \<open>\<open>s.includes(sub)\<close>: \<open>sub\<close> occurs in \<open>s\<close> as a contiguous substring.\<close>

fun includes_str :: "string \<Rightarrow> string \<Rightarrow> bool" where
  "includes_str [] sub = (sub = [])"
| "includes_str (c # cs) sub = (starts_with (c # cs) sub \<or> includes_str cs sub)"

subsection \<open>parseFloat\<close>

definition is_digit :: "char \<Rightarrow> bool" where
  "is_digit c = (48 \<le> (of_char c :: nat) \<and> (of_char c :: nat) \<le> 57)"

definition digits_value :: "string \<Rightarrow> nat" where
  "digits_value ds = foldl (\<lambda>a c. 10 * a + (of_char c - 48)) 0 ds"

text \<open>An optional sign: whether it is a minus, and the rest of the string.\<close>

fun take_sign :: "string \<Rightarrow> bool \<times> string" where
  "take_sign [] = (False, [])"
| "take_sign (c # cs) =
     (if c = CHR ''-'' then (True, cs) else if c = CHR ''+'' then (False, cs) else (False, c # cs))"

text \<open>
  An exponent part \<open>e\<close> or \<open>E\<close>, an optional sign and at least one digit; without a
  digit the exponent part is not read and the exponent is 0.
\<close>

definition exponent_part :: "string \<Rightarrow> int" where
  "exponent_part s =
     (case s of
        [] \<Rightarrow> 0
      | c # cs \<Rightarrow>
          if c = CHR ''e'' \<or> c = CHR ''E'' then
            (let (neg, r) = take_sign cs; ds = takeWhile is_digit r
             in if ds = [] then 0
                else if neg then - int (digits_value ds) else int (digits_value ds))
          else 0)"

text \<open>
  The largest finite double is \<open>2^1024 - 2^971\<close>; a decimal literal of magnitude
  \<open>2^1024 - 2^970\<close> or more reads as an infinity.
\<close>

definition number_of_decimal :: "real \<Rightarrow> jsnum" where
  "number_of_decimal v =
     (if 2 ^ 1024 - 2 ^ 970 \<le> v then PInf
      else if v \<le> - (2 ^ 1024 - 2 ^ 970) then NInf
      else Fin v)"

definition scale10 :: "nat \<Rightarrow> int \<Rightarrow> real" where
  "scale10 m e = (if 0 \<le> e then of_nat m * 10 ^ nat e else of_nat m / 10 ^ nat (- e))"

text \<open>
  \<open>parseFloat\<close> on a string: skip leading white space, then read the longest prefix
  that is a decimal literal (sign, \<open>Infinity\<close>, or digits with an optional fraction and
  exponent); NaN when no prefix is one.
\<close>

definition parseFloat_string :: "string \<Rightarrow> jsnum" where
  "parseFloat_string s =
     (let (neg, s2) = take_sign (dropWhile is_ws s) in
      if starts_with s2 ''Infinity'' then (if neg then NInf else PInf)
      else
        (let ip = takeWhile is_digit s2;
             s3 = dropWhile is_digit s2;
             has_point = starts_with s3 ''.'';
             fp = (if has_point then takeWhile is_digit (tl s3) else []);
             s4 = (if has_point then dropWhile is_digit (tl s3) else s3)
         in if ip = [] \<and> fp = [] then NaN
            else
              (let v = scale10 (digits_value (ip @ fp)) (exponent_part s4 - int (length fp))
               in number_of_decimal (if neg then - v else v))))"

text \<open>
  \<open>parseFloat\<close> converts its argument to a string first. A number prints and reads
  back as itself; \<open>undefined\<close>, \<open>null\<close>, \<open>true\<close> and \<open>false\<close> print as words that
  are not numbers.
\<close>

fun parseFloat :: "jsval \<Rightarrow> jsnum" where
  "parseFloat (Str s) = parseFloat_string s"
| "parseFloat (Num n) = n"
| "parseFloat _ = NaN"

section \<open>The distance kernel (utils/haversine.js)\<close>

definition toRadians :: "jsnum \<Rightarrow> jsnum" where
  "toRadians degrees = js_mul degrees (js_div Math_PI (Fin 180))"

definition calculateDistance :: "jsnum \<Rightarrow> jsnum \<Rightarrow> jsnum \<Rightarrow> jsnum \<Rightarrow> jsnum" where
  "calculateDistance lat1 lng1 lat2 lng2 =
     (let EARTH_RADIUS = Fin 6371000;
          lat1Rad = toRadians lat1;
          lng1Rad = toRadians lng1;
          lat2Rad = toRadians lat2;
          lng2Rad = toRadians lng2;
          deltaLat = js_sub lat2Rad lat1Rad;
          deltaLng = js_sub lng2Rad lng1Rad;
          a = js_add
                (js_mul (Math_sin (js_div deltaLat (Fin 2))) (Math_sin (js_div deltaLat (Fin 2))))
                (js_mul
                   (js_mul
                      (js_mul (Math_cos lat1Rad) (Math_cos lat2Rad))
                      (Math_sin (js_div deltaLng (Fin 2))))
                   (Math_sin (js_div deltaLng (Fin 2))));
          c = js_mul (Fin 2) (Math_atan2 (Math_sqrt a) (Math_sqrt (js_sub (Fin 1) a)));
          distance = js_mul EARTH_RADIUS c
      in Math_round distance)"

definition isWithinRadius :: "jsnum \<Rightarrow> jsnum \<Rightarrow> jsnum \<Rightarrow> jsnum \<Rightarrow> jsnum \<Rightarrow> bool" where
  "isWithinRadius centerLat centerLng pointLat pointLng radius =
     (let distance = calculateDistance centerLat centerLng pointLat pointLng
      in js_le distance radius)"

section \<open>The user directory (data/users.js)\<close>

text \<open>
  A stored user. \<open>lastSeen\<close> is an ISO-8601 string in the source; it is represented by
  the time value, in milliseconds since the epoch, that \<open>new Date(lastSeen)\<close> reads from
  it, NaN when \<open>Date\<close> cannot read it.
\<close>

record user =
  username :: jsval
  latitude :: jsnum
  longitude :: jsnum
  lastSeen :: jsnum

text \<open>
  The \<open>Map\<close> of users, in insertion order: \<open>users.set\<close> is \<open>AList.update\<close> (an
  existing key keeps its place, a new key goes to the end), \<open>users.get\<close> is
  \<open>map_of\<close>, \<open>users.delete\<close> is \<open>AList.delete\<close>.
\<close>

type_synonym directory = "(jsval \<times> user) list"

text \<open>The mock users; \<open>t0\<close> is the time at which the module is loaded.\<close>

definition mockUsers :: "real \<Rightarrow> user list" where
  "mockUsers t0 =
    [\<lparr>username = Str ''Sarah_M'', latitude = Fin 40.7580, longitude = Fin (- 73.9855), lastSeen = Fin t0\<rparr>,
     \<lparr>username = Str ''Emma_K'', latitude = Fin 40.7520, longitude = Fin (- 73.9860), lastSeen = Fin t0\<rparr>,
     \<lparr>username = Str ''Jessica_L'', latitude = Fin 40.7610, longitude = Fin (- 73.9840), lastSeen = Fin t0\<rparr>,
     \<lparr>username = Str ''Amanda_R'', latitude = Fin 40.7490, longitude = Fin (- 73.9857), lastSeen = Fin t0\<rparr>,
     \<lparr>username = Str ''Michelle_T'', latitude = Fin 40.7530, longitude = Fin (- 73.9880), lastSeen = Fin t0\<rparr>,
     \<lparr>username = Str ''Lisa_H'', latitude = Fin 40.7560, longitude = Fin (- 73.9870), lastSeen = Fin t0\<rparr>,
     \<lparr>username = Str ''Rachel_B'', latitude = Fin 40.7500, longitude = Fin (- 73.9900), lastSeen = Fin t0\<rparr>,
     \<lparr>username = Str ''Nicole_W'', latitude = Fin 40.7570, longitude = Fin (- 73.9830), lastSeen = Fin t0\<rparr>,
     \<lparr>username = Str ''Priya_Sharma'', latitude = Fin 26.8553, longitude = Fin 80.8805, lastSeen = Fin t0\<rparr>,
     \<lparr>username = Str ''Anita_Gupta'', latitude = Fin 26.8565, longitude = Fin 80.8820, lastSeen = Fin t0\<rparr>,
     \<lparr>username = Str ''Meera_Singh'', latitude = Fin 26.8540, longitude = Fin 80.8790, lastSeen = Fin t0\<rparr>,
     \<lparr>username = Str ''Ritu_Agarwal'', latitude = Fin 26.8575, longitude = Fin 80.8815, lastSeen = Fin t0\<rparr>,
     \<lparr>username = Str ''Sunita_Verma'', latitude = Fin 26.8520, longitude = Fin 80.8785, lastSeen = Fin t0\<rparr>,
     \<lparr>username = Str ''Kavita_Yadav'', latitude = Fin 26.8590, longitude = Fin 80.8825, lastSeen = Fin t0\<rparr>,
     \<lparr>username = Str ''Neha_Mishra'', latitude = Fin 26.8510, longitude = Fin 80.8775, lastSeen = Fin t0\<rparr>,
     \<lparr>username = Str ''Pooja_Tiwari'', latitude = Fin 26.8580, longitude = Fin 80.8810, lastSeen = Fin t0\<rparr>,
     \<lparr>username = Str ''Deepika_Pandey'', latitude = Fin 26.8530, longitude = Fin 80.8795, lastSeen = Fin t0\<rparr>,
     \<lparr>username = Str ''Shweta_Dubey'', latitude = Fin 26.8560, longitude = Fin 80.8800, lastSeen = Fin t0\<rparr>,
     \<lparr>username = Str ''Simran_Kaur'', latitude = Fin 30.4726, longitude = Fin 76.5269, lastSeen = Fin t0\<rparr>,
     \<lparr>username = Str ''Jaspreet_Singh'', latitude = Fin 30.4735, longitude = Fin 76.5280, lastSeen = Fin t0\<rparr>,
     \<lparr>username = Str ''Manpreet_Kaur'', latitude = Fin 30.4718, longitude = Fin 76.5255, lastSeen = Fin t0\<rparr>,
     \<lparr>username = Str ''Harpreet_Singh'', latitude = Fin 30.4740, longitude = Fin 76.5285, lastSeen = Fin t0\<rparr>,
     \<lparr>username = Str ''Gurpreet_Kaur'', latitude = Fin 30.4710, longitude = Fin 76.5250, lastSeen = Fin t0\<rparr>,
     \<lparr>username = Str ''Rajveer_Singh'', latitude = Fin 30.4745, longitude = Fin 76.5290, lastSeen = Fin t0\<rparr>,
     \<lparr>username = Str ''Navjot_Kaur'', latitude = Fin 30.4705, longitude = Fin 76.5245, lastSeen = Fin t0\<rparr>,
     \<lparr>username = Str ''Sukhvir_Singh'', latitude = Fin 30.4750, longitude = Fin 76.5295, lastSeen = Fin t0\<rparr>,
     \<lparr>username = Str ''Jaskiran_Kaur'', latitude = Fin 30.4715, longitude = Fin 76.5260, lastSeen = Fin t0\<rparr>,
     \<lparr>username = Str ''Arshdeep_Singh'', latitude = Fin 30.4730, longitude = Fin 76.5275, lastSeen = Fin t0\<rparr>]"

definition initializeUsers :: "real \<Rightarrow> directory \<Rightarrow> directory" where
  "initializeUsers t0 users =
     foldl (\<lambda>m user. AList.update (username user) user m) users (mockUsers t0)"

text \<open>
  The argument of \<open>addUser\<close>. \<open>ud_lastSeen\<close> is \<open>None\<close> when the field is absent or
  falsy, and the time value of the supplied timestamp otherwise.
\<close>

record userData =
  ud_username :: jsval
  ud_latitude :: jsval
  ud_longitude :: jsval
  ud_lastSeen :: "jsnum option"

text \<open>\<open>addUser\<close> at time \<open>now\<close>: the returned boolean and the directory afterwards.\<close>

definition addUser :: "real \<Rightarrow> userData \<Rightarrow> directory \<Rightarrow> bool \<times> directory" where
  "addUser now ud users =
     (if \<not> truthy (ud_username ud) \<or> \<not> truthy (ud_latitude ud) \<or> \<not> truthy (ud_longitude ud)
      then (False, users)
      else
        (let user = \<lparr>username = ud_username ud,
                     latitude = parseFloat (ud_latitude ud),
                     longitude = parseFloat (ud_longitude ud),
                     lastSeen = (case ud_lastSeen ud of Some t \<Rightarrow> t | None \<Rightarrow> Fin now)\<rparr>
         in (True, AList.update (ud_username ud) user users)))"

text \<open>An element of the result of \<open>findNearbyUsers\<close>: the user's fields and the distance.\<close>

record nearby_user = user +
  distance :: jsnum

definition with_distance :: "user \<Rightarrow> jsnum \<Rightarrow> nearby_user" where
  "with_distance u d =
     \<lparr>username = username u, latitude = user.latitude u, longitude = user.longitude u,
      lastSeen = lastSeen u, distance = d\<rparr>"

text \<open>
  \<open>Array.prototype.sort\<close> with a comparison function: a stable sort, written as an
  insertion sort. An element moves behind another one only when the comparison function
  returns a number greater than 0; a NaN result counts as 0.
\<close>

fun sort_insert :: "('a \<Rightarrow> 'a \<Rightarrow> jsnum) \<Rightarrow> 'a \<Rightarrow> 'a list \<Rightarrow> 'a list" where
  "sort_insert cmp x [] = [x]"
| "sort_insert cmp x (y # ys) =
     (if js_gt (cmp x y) (Fin 0) then y # sort_insert cmp x ys else x # y # ys)"

definition js_sort :: "('a \<Rightarrow> 'a \<Rightarrow> jsnum) \<Rightarrow> 'a list \<Rightarrow> 'a list" where
  "js_sort cmp xs = foldr (sort_insert cmp) xs []"

text \<open>The body of \<open>users.forEach\<close> in \<open>findNearbyUsers\<close>, with \<open>nearbyUsers\<close> threaded.\<close>

fun nearby_scan ::
  "jsnum \<Rightarrow> jsnum \<Rightarrow> jsnum \<Rightarrow> jsval \<Rightarrow> directory \<Rightarrow> nearby_user list \<Rightarrow> nearby_user list" where
  "nearby_scan lat lng radius excludeUser [] nearbyUsers = nearbyUsers"
| "nearby_scan lat lng radius excludeUser ((name, u) # rest) nearbyUsers =
     (if truthy excludeUser \<and> name = excludeUser
      then nearby_scan lat lng radius excludeUser rest nearbyUsers
      else if isNaN (user.latitude u) \<or> isNaN (user.longitude u)
      then nearby_scan lat lng radius excludeUser rest nearbyUsers
      else
        (let d = calculateDistance lat lng (user.latitude u) (user.longitude u)
         in if js_le d radius
            then nearby_scan lat lng radius excludeUser rest (nearbyUsers @ [with_distance u d])
            else nearby_scan lat lng radius excludeUser rest nearbyUsers))"

text \<open>\<open>excludeUser\<close> is \<open>Null\<close> when the fourth argument is not given.\<close>

definition findNearbyUsers ::
  "jsval \<Rightarrow> jsval \<Rightarrow> jsnum \<Rightarrow> jsval \<Rightarrow> directory \<Rightarrow> nearby_user list" where
  "findNearbyUsers latitude_arg longitude_arg radius excludeUser users =
     (let lat = parseFloat latitude_arg;
          lng = parseFloat longitude_arg
      in if isNaN lat \<or> isNaN lng then []
         else js_sort (\<lambda>a b. js_sub (distance a) (distance b))
                (nearby_scan lat lng radius excludeUser users []))"

definition getUser :: "jsval \<Rightarrow> directory \<Rightarrow> user option" where
  "getUser name users = map_of users name"

definition getAllUsers :: "directory \<Rightarrow> user list" where
  "getAllUsers users = map snd users"

definition removeUser :: "jsval \<Rightarrow> directory \<Rightarrow> bool \<times> directory" where
  "removeUser name users = (name \<in> fst ` set users, AList.delete name users)"

definition getUserCount :: "directory \<Rightarrow> nat" where
  "getUserCount users = length users"

text \<open>
  The body of \<open>users.forEach\<close> in \<open>cleanupOldUsers\<close>: the entries are visited in
  order, the directory and \<open>removedCount\<close> are threaded. The only entry deleted during a
  visit is the visited one, so the entries still to visit are those of the start.
\<close>

fun cleanup_loop :: "real \<Rightarrow> jsnum \<Rightarrow> directory \<Rightarrow> directory \<times> nat \<Rightarrow> directory \<times> nat" where
  "cleanup_loop now maxAgeMs [] st = st"
| "cleanup_loop now maxAgeMs ((name, u) # rest) (users, removedCount) =
     (let age = js_sub (Fin now) (lastSeen u)
      in if js_gt age maxAgeMs
         then cleanup_loop now maxAgeMs rest (AList.delete name users, removedCount + 1)
         else cleanup_loop now maxAgeMs rest (users, removedCount))"

text \<open>\<open>cleanupOldUsers\<close> at time \<open>now\<close>: the returned count and the directory afterwards.\<close>

definition cleanupOldUsers :: "real \<Rightarrow> jsnum \<Rightarrow> directory \<Rightarrow> nat \<times> directory" where
  "cleanupOldUsers now maxAgeMs users =
     (let (users', removedCount) = cleanup_loop now maxAgeMs users (users, 0)
      in (removedCount, users'))"

definition default_maxAgeMs :: jsnum where
  "default_maxAgeMs = Fin (24 * 60 * 60 * 1000)"

text \<open>
  The directories the module can hold: it starts empty, is filled by
  \<open>initializeUsers\<close> when the module is loaded, and changes only through the exported
  functions.
\<close>

inductive reachable :: "directory \<Rightarrow> bool" where
  reach_empty: "reachable []"
| reach_init: "reachable users \<Longrightarrow> reachable (initializeUsers t0 users)"
| reach_add: "reachable users \<Longrightarrow> reachable (snd (addUser now ud users))"
| reach_remove: "reachable users \<Longrightarrow> reachable (snd (removeUser name users))"
| reach_cleanup: "reachable users \<Longrightarrow> reachable (snd (cleanupOldUsers now maxAgeMs users))"

text \<open>
  A well-formed directory: the keys are distinct (it is a \<open>Map\<close>), every entry is stored
  under its own username, and every key is truthy.
\<close>

definition directory_ok :: "directory \<Rightarrow> bool" where
  "directory_ok users =
     (distinct (map fst users) \<and> list_all (\<lambda>(name, u). username u = name \<and> truthy name) users)"

section \<open>The alert route (routes/sos.js)\<close>

record sos_body =
  body_username :: jsval
  body_latitude :: jsval
  body_longitude :: jsval

text \<open>The alert object, without its random \<open>id\<close> and its constant \<open>type\<close>.\<close>

record sos_alert =
  alert_username :: jsval
  alert_latitude :: jsnum
  alert_longitude :: jsnum
  alert_timestamp :: real

text \<open>An element of \<open>nearbyUsers\<close> in the dashboard payload and in the response.\<close>

record dashboard_nearby =
  dn_username :: jsval
  dn_latitude :: jsnum
  dn_longitude :: jsnum
  dn_distance :: jsnum

record response_nearby =
  rn_username :: jsval
  rn_distance :: jsnum
  rn_lastSeen :: jsnum

datatype sos_response =
  BadRequest string
| SosOk sos_alert "response_nearby list" bool

text \<open>
  What one request does: the response, the payload emitted to every dashboard socket
  (\<open>None\<close> when nothing is emitted) and the directory afterwards.
\<close>

record sos_result =
  response :: sos_response
  emitted :: "(sos_alert \<times> dashboard_nearby list) option"
  users_after :: directory

fun response_usernames :: "sos_response \<Rightarrow> jsval list" where
  "response_usernames (BadRequest e) = []"
| "response_usernames (SosOk alert nearby notified) = map rn_username nearby"

fun emitted_usernames :: "(sos_alert \<times> dashboard_nearby list) option \<Rightarrow> jsval list" where
  "emitted_usernames None = []"
| "emitted_usernames (Some (alert, nearby)) = map dn_username nearby"

text \<open>
  \<open>router.post('/sos')\<close> with the configured \<open>NEARBY_RADIUS\<close>, at time \<open>now\<close>, with
  \<open>sockets\<close> dashboard connections.
\<close>

definition sos_post :: "jsnum \<Rightarrow> real \<Rightarrow> nat \<Rightarrow> sos_body \<Rightarrow> directory \<Rightarrow> sos_result" where
  "sos_post NEARBY_RADIUS now sockets body users =
     (if \<not> truthy (body_username body) \<or> \<not> truthy (body_latitude body)
         \<or> \<not> truthy (body_longitude body)
      then \<lparr>response = BadRequest ''Missing required fields'', emitted = None,
            users_after = users\<rparr>
      else
        (let lat = parseFloat (body_latitude body);
             lng = parseFloat (body_longitude body)
         in if isNaN lat \<or> isNaN lng \<or> js_lt lat (Fin (- 90)) \<or> js_gt lat (Fin 90)
               \<or> js_lt lng (Fin (- 180)) \<or> js_gt lng (Fin 180)
            then \<lparr>response = BadRequest ''Invalid coordinates'', emitted = None,
                  users_after = users\<rparr>
            else
              (let sosAlert = \<lparr>alert_username = body_username body, alert_latitude = lat,
                                alert_longitude = lng, alert_timestamp = now\<rparr>;
                   nearbyUsers = findNearbyUsers (Num lat) (Num lng) NEARBY_RADIUS Null users;
                   dashboardPayload =
                     (sosAlert,
                      map (\<lambda>u. \<lparr>dn_username = username u, dn_latitude = user.latitude u,
                                 dn_longitude = user.longitude u,
                                 dn_distance =
                                   calculateDistance lat lng (user.latitude u) (user.longitude u)\<rparr>)
                        nearbyUsers);
                   added = addUser now
                             \<lparr>ud_username = body_username body, ud_latitude = Num lat,
                              ud_longitude = Num lng, ud_lastSeen = Some (Fin now)\<rparr> users
               in \<lparr>response =
                      SosOk sosAlert
                        (map (\<lambda>u. \<lparr>rn_username = username u,
                                   rn_distance =
                                     calculateDistance lat lng (user.latitude u) (user.longitude u),
                                   rn_lastSeen = lastSeen u\<rparr>)
                           nearbyUsers)
                        (0 < sockets),
                    emitted = (if 0 < sockets then Some dashboardPayload else None),
                    users_after = snd added\<rparr>)))"

definition default_NEARBY_RADIUS :: jsnum where
  "default_NEARBY_RADIUS = Fin 500"

section \<open>The incident dataset (utils/csvParser.js)\<close>

text \<open>
  A row as the CSV reader delivers it: every cell is a string, and a column that the
  file does not have is \<open>undefined\<close>.
\<close>

record csv_row =
  row_latitude :: "string option"
  row_longitude :: "string option"
  row_type :: "string option"

fun cell :: "string option \<Rightarrow> jsval" where
  "cell None = Undefined"
| "cell (Some s) = Str s"

record crime =
  crime_id :: string
  crime_latitude :: jsnum
  crime_longitude :: jsnum
  crime_type :: string
  crime_raw :: csv_row

text \<open>The decimal digits of a natural number, as a template literal prints it.\<close>

function string_of_nat :: "nat \<Rightarrow> string" where
  "string_of_nat n =
     (if n < 10 then [''0123456789'' ! n]
      else string_of_nat (n div 10) @ [''0123456789'' ! (n mod 10)])"
  by pat_completeness auto
termination
  by (relation "measure id") auto

datatype diagnostic = FileNotFound | RowSkipped csv_row | ReadError string

datatype load_outcome = Resolved "crime list" | Rejected string

text \<open>
  The module state \<open>crimeData\<close> and \<open>isDataLoaded\<close>, together with what a running
  load holds: its local \<open>results\<close> array (\<open>None\<close> when no stream is being read), the
  warnings and errors logged so far, and how the promise of the last load was settled.
\<close>

record crime_store =
  crimeData :: "crime list"
  isDataLoaded :: bool
  results :: "crime list option"
  logged :: "diagnostic list"
  settled :: "load_outcome option"

definition initial_store :: crime_store where
  "initial_store =
     \<lparr>crimeData = [], isDataLoaded = False, results = None, logged = [], settled = None\<rparr>"

text \<open>The label of a row: \<open>row.type ? row.type.trim() : 'Unknown'\<close>.\<close>

definition row_label :: "csv_row \<Rightarrow> string" where
  "row_label row =
     (case row_type row of
        None \<Rightarrow> ''Unknown''
      | Some t \<Rightarrow> if t \<noteq> [] then trim t else ''Unknown'')"

definition row_valid :: "csv_row \<Rightarrow> bool" where
  "row_valid row =
     (let lat = parseFloat (cell (row_latitude row));
          lng = parseFloat (cell (row_longitude row))
      in \<not> isNaN lat \<and> \<not> isNaN lng
         \<and> js_ge lat (Fin (- 90)) \<and> js_le lat (Fin 90)
         \<and> js_ge lng (Fin (- 180)) \<and> js_le lng (Fin 180))"

text \<open>The \<open>'data'\<close> handler, on the \<open>results\<close> array and the log.\<close>

definition on_data :: "csv_row \<Rightarrow> crime list \<times> diagnostic list \<Rightarrow> crime list \<times> diagnostic list" where
  "on_data row st =
     (case st of (res, lg) \<Rightarrow>
        if row_valid row
        then (res @ [\<lparr>crime_id = ''crime_'' @ string_of_nat (length res + 1),
                      crime_latitude = parseFloat (cell (row_latitude row)),
                      crime_longitude = parseFloat (cell (row_longitude row)),
                      crime_type = row_label row,
                      crime_raw = row\<rparr>], lg)
        else (res, lg @ [RowSkipped row]))"

datatype stream_event = Data csv_row | End | Error string

text \<open>
  The part of \<open>loadCrimeData\<close> that runs before the first stream event: with no file,
  the promise is resolved at once; with a file, an empty \<open>results\<close> array is set up.
\<close>

definition loadCrimeData_begin :: "bool \<Rightarrow> crime_store \<Rightarrow> crime_store" where
  "loadCrimeData_begin fileExists st =
     (if \<not> fileExists
      then st\<lparr>crimeData := [], isDataLoaded := True, results := None,
              logged := logged st @ [FileNotFound], settled := Some (Resolved [])\<rparr>
      else st\<lparr>results := Some [], settled := None\<rparr>)"

text \<open>One stream event, handled while a load is running.\<close>

fun on_event :: "stream_event \<Rightarrow> crime_store \<Rightarrow> crime_store" where
  "on_event (Data row) st =
     (case results st of
        None \<Rightarrow> st
      | Some res \<Rightarrow>
          (case on_data row (res, logged st) of
             (res', lg') \<Rightarrow> st\<lparr>results := Some res', logged := lg'\<rparr>))"
| "on_event End st =
     (case results st of
        None \<Rightarrow> st
      | Some res \<Rightarrow>
          st\<lparr>crimeData := res, isDataLoaded := True, results := None,
             settled := Some (Resolved res)\<rparr>)"
| "on_event (Error e) st =
     (case results st of
        None \<Rightarrow> st
      | Some res \<Rightarrow>
          st\<lparr>crimeData := [], isDataLoaded := True, results := None,
             logged := logged st @ [ReadError e], settled := Some (Rejected e)\<rparr>)"

definition run_events :: "stream_event list \<Rightarrow> crime_store \<Rightarrow> crime_store" where
  "run_events evs st = foldl (\<lambda>s e. on_event e s) st evs"

text \<open>
  How the reading of a file stops. \<open>loadCrimeData\<close> registers its three handlers on
  the stream that \<open>pipe\<close> returns, which is the CSV parser. At the end of the file the
  parser emits \<open>end\<close>. An error of the parser itself is emitted on the parser and reaches
  the \<open>error\<close> handler. A failure to read the file is emitted on the file stream, on
  which \<open>loadCrimeData\<close> registers nothing and which \<open>pipe\<close> does not forward: none of
  the handlers runs.
\<close>

datatype stream_ending = Ended | ParserError string | ReadFailure string

text \<open>The source of a load: no file, or a file that delivers rows and then stops.\<close>

datatype csv_source = FileMissing | FileStream "csv_row list" stream_ending

text \<open>The events that reach the handlers of \<open>loadCrimeData\<close>.\<close>

fun stream_events :: "csv_row list \<Rightarrow> stream_ending \<Rightarrow> stream_event list" where
  "stream_events rows Ended = map Data rows @ [End]"
| "stream_events rows (ParserError e) = map Data rows @ [Error e]"
| "stream_events rows (ReadFailure e) = map Data rows"

fun loadCrimeData :: "csv_source \<Rightarrow> crime_store \<Rightarrow> crime_store" where
  "loadCrimeData FileMissing st = loadCrimeData_begin False st"
| "loadCrimeData (FileStream rows ending) st =
     run_events (stream_events rows ending) (loadCrimeData_begin True st)"

definition getCrimeData :: "crime_store \<Rightarrow> crime list" where
  "getCrimeData st = (if \<not> isDataLoaded st then [] else crimeData st)"

definition getCrimesByType :: "string \<Rightarrow> crime_store \<Rightarrow> crime list" where
  "getCrimesByType crimeType st =
     filter (\<lambda>c. includes_str (toLowerCase (crime_type c)) (toLowerCase crimeType)) (crimeData st)"

definition getCrimesInArea :: "jsnum \<Rightarrow> jsnum \<Rightarrow> jsnum \<Rightarrow> crime_store \<Rightarrow> crime list" where
  "getCrimesInArea centerLat centerLng radius st =
     filter (\<lambda>c. js_le (calculateDistance centerLat centerLng (crime_latitude c) (crime_longitude c))
                   radius)
       (crimeData st)"

text \<open>
  \<open>reloadCrimeData\<close> clears \<open>isDataLoaded\<close> and then loads. \<open>reloadCrimeData_begin\<close>
  is its part that runs before the first stream event.
\<close>

definition reloadCrimeData_begin :: "bool \<Rightarrow> crime_store \<Rightarrow> crime_store" where
  "reloadCrimeData_begin fileExists st = loadCrimeData_begin fileExists (st\<lparr>isDataLoaded := False\<rparr>)"

definition reloadCrimeData :: "csv_source \<Rightarrow> crime_store \<Rightarrow> crime_store" where
  "reloadCrimeData src st = loadCrimeData src (st\<lparr>isDataLoaded := False\<rparr>)"

text \<open>
  The record that the \<open>'data'\<close> handler pushes for a valid row when \<open>results\<close>
  holds \<open>n\<close> records.
\<close>

definition pushed_record :: "nat \<Rightarrow> csv_row \<Rightarrow> crime" where
  "pushed_record n row =
     \<lparr>crime_id = ''crime_'' @ string_of_nat (n + 1),
      crime_latitude = parseFloat (cell (row_latitude row)),
      crime_longitude = parseFloat (cell (row_longitude row)),
      crime_type = row_label row,
      crime_raw = row\<rparr>"

text \<open>What a completed stream of rows leaves in \<open>results\<close>.\<close>

definition load_rows :: "csv_row list \<Rightarrow> crime list" where
  "load_rows rows = fst (foldl (\<lambda>s row. on_data row s) ([], []) rows)"

section \<open>The crime query route (routes/crime-zones.js)\<close>

text \<open>The query parameters; \<open>None\<close> is a parameter that the request does not have.\<close>

record zones_query =
  q_lat :: "string option"
  q_lng :: "string option"
  q_radius :: "string option"
  q_type :: "string option"

record zones_response =
  zr_status :: nat
  zr_data :: "crime list"
  zr_total :: nat
  zr_message :: "string option"

text \<open>A query parameter is truthy when it is there and not the empty string.\<close>

fun supplied :: "string option \<Rightarrow> bool" where
  "supplied None = False"
| "supplied (Some s) = (s \<noteq> [])"

definition type_filter :: "string option \<Rightarrow> crime list \<Rightarrow> crime list" where
  "type_filter ty crimes =
     (case ty of
        None \<Rightarrow> crimes
      | Some t \<Rightarrow>
          if t \<noteq> []
          then filter (\<lambda>c. crime_type c \<noteq> []
                       \<and> includes_str (toLowerCase (crime_type c)) (toLowerCase t)) crimes
          else crimes)"

definition area_filter :: "jsnum \<Rightarrow> jsnum \<Rightarrow> jsnum \<Rightarrow> crime list \<Rightarrow> crime list" where
  "area_filter lat lng searchRadius crimes =
     filter (\<lambda>c. js_le (calculateDistance lat lng
                          (parseFloat (Num (crime_latitude c)))
                          (parseFloat (Num (crime_longitude c))))
                   searchRadius)
       crimes"

definition crime_zones_get :: "zones_query \<Rightarrow> crime_store \<Rightarrow> zones_response" where
  "crime_zones_get q st =
     (let all_crimes = getCrimeData st
      in if all_crimes = []
         then \<lparr>zr_status = 200, zr_data = [], zr_total = 0,
               zr_message = Some ''No crime data available''\<rparr>
         else
           (let typed = type_filter (q_type q) all_crimes;
                found =
                  (if supplied (q_lat q) \<and> supplied (q_lng q) \<and> supplied (q_radius q)
                   then
                     (let lat = parseFloat (cell (q_lat q));
                          lng = parseFloat (cell (q_lng q));
                          searchRadius = parseFloat (cell (q_radius q))
                      in if \<not> isNaN lat \<and> \<not> isNaN lng \<and> \<not> isNaN searchRadius
                         then area_filter lat lng searchRadius typed
                         else typed)
                   else typed)
            in \<lparr>zr_status = 200, zr_data = found, zr_total = length found,
                zr_message = None\<rparr>))"

section \<open>Notions of the specification\<close>

text \<open>A finite number: neither NaN nor an infinity.\<close>

fun is_finite :: "jsnum \<Rightarrow> bool" where
  "is_finite (Fin x) = True"
| "is_finite _ = False"

text \<open>
  The distance of a stored entry from the center \<open>(lat, lng)\<close>, and the entry annotated
  with it: the fields of the entry, and that distance.
\<close>

definition distance_from :: "jsnum \<Rightarrow> jsnum \<Rightarrow> user \<Rightarrow> jsnum" where
  "distance_from lat lng u = calculateDistance lat lng (user.latitude u) (user.longitude u)"

definition annotate :: "jsnum \<Rightarrow> jsnum \<Rightarrow> jsval \<times> user \<Rightarrow> nearby_user" where
  "annotate lat lng entry =
     \<lparr>username = username (snd entry),
      latitude = user.latitude (snd entry),
      longitude = user.longitude (snd entry),
      lastSeen = lastSeen (snd entry),
      distance = distance_from lat lng (snd entry)\<rparr>"

text \<open>A result without its annotation: the stored user it was made from.\<close>

definition stored_user :: "nearby_user \<Rightarrow> user" where
  "stored_user n =
     \<lparr>username = username n, latitude = user.latitude n, longitude = user.longitude n,
      lastSeen = lastSeen n\<rparr>"

text \<open>
  The entries that the specification asks \<open>findNearby\<close> to return: not the excluded
  identity, finite stored coordinates, and a distance from the center of at most the
  radius.
\<close>

definition nearby_match :: "jsnum \<Rightarrow> jsnum \<Rightarrow> jsnum \<Rightarrow> jsval \<Rightarrow> jsval \<times> user \<Rightarrow> bool" where
  "nearby_match lat lng radius excludeIdentity entry =
     (fst entry \<noteq> excludeIdentity
      \<and> is_finite (user.latitude (snd entry)) \<and> is_finite (user.longitude (snd entry))
      \<and> js_le (distance_from lat lng (snd entry)) radius)"

text \<open>
  A small directory for concrete runs: two users at the origin, last seen at times 1000
  and 5000, and a user whose latitude and timestamp could not be read.
\<close>

definition demo_directory :: directory where
  "demo_directory =
     [(Str ''A'', \<lparr>username = Str ''A'', latitude = Fin 0, longitude = Fin 0, lastSeen = Fin 1000\<rparr>),
      (Str ''B'', \<lparr>username = Str ''B'', latitude = Fin 0, longitude = Fin 0, lastSeen = Fin 5000\<rparr>),
      (Str ''C'', \<lparr>username = Str ''C'', latitude = NaN, longitude = Fin 10, lastSeen = NaN\<rparr>)]"

text \<open>
  A directory whose entries lie at three different distances from the origin, stored far
  before near: a user at the pole, two users at the origin, and a user on the opposite
  side of the equator.
\<close>

definition spread_directory :: directory where
  "spread_directory =
     [(Str ''P'', \<lparr>username = Str ''P'', latitude = Fin 90, longitude = Fin 0, lastSeen = Fin 1\<rparr>),
      (Str ''A'', \<lparr>username = Str ''A'', latitude = Fin 0, longitude = Fin 0, lastSeen = Fin 2\<rparr>),
      (Str ''Q'', \<lparr>username = Str ''Q'', latitude = Fin 0, longitude = Fin 180, lastSeen = Fin 3\<rparr>),
      (Str ''B'', \<lparr>username = Str ''B'', latitude = Fin 0, longitude = Fin 0, lastSeen = Fin 4\<rparr>)]"

text \<open>An entry is expired at time \<open>now\<close> when its age \<open>now - lastSeen\<close> exceeds \<open>maxAge\<close>.\<close>

definition expired :: "real \<Rightarrow> jsnum \<Rightarrow> jsval \<times> user \<Rightarrow> bool" where
  "expired now maxAge entry = js_gt (js_sub (Fin now) (lastSeen (snd entry))) maxAge"

text \<open>An alert sent by the mock user \<open>Sarah_M\<close> from her stored position.\<close>

definition sarah_body :: sos_body where
  "sarah_body =
     \<lparr>body_username = Str ''Sarah_M'', body_latitude = Num (Fin 40.7580),
      body_longitude = Num (Fin (- 73.9855))\<rparr>"

text \<open>
  A row that the specification accepts: both coordinates parse to numbers, the latitude
  within \<open>[-90, 90]\<close> and the longitude within \<open>[-180, 180]\<close>.
\<close>

definition row_accepted :: "csv_row \<Rightarrow> bool" where
  "row_accepted row =
     (case (parseFloat (cell (row_latitude row)), parseFloat (cell (row_longitude row))) of
        (Fin x, Fin y) \<Rightarrow> - 90 \<le> x \<and> x \<le> 90 \<and> - 180 \<le> y \<and> y \<le> 180
      | _ \<Rightarrow> False)"

text \<open>A blank label: nothing but white space, the empty label included.\<close>

definition blank :: "string \<Rightarrow> bool" where
  "blank s = list_all is_ws s"

text \<open>
  The record that the specification asks for an accepted row, given the number of rows
  accepted before it: the next 1-based identifier, the parsed coordinates, and the trimmed
  label, or \<open>Unknown\<close> when the row has no label or a blank one.
\<close>

definition accepted_record :: "nat \<times> csv_row \<Rightarrow> crime" where
  "accepted_record p =
     \<lparr>crime_id = ''crime_'' @ string_of_nat (fst p + 1),
      crime_latitude = parseFloat (cell (row_latitude (snd p))),
      crime_longitude = parseFloat (cell (row_longitude (snd p))),
      crime_type =
        (case row_type (snd p) of
           None \<Rightarrow> ''Unknown''
         | Some t \<Rightarrow> if blank t then ''Unknown'' else trim t),
      crime_raw = snd p\<rparr>"

text \<open>A row whose label is not a non-empty run of white space only.\<close>

definition plain_label :: "csv_row \<Rightarrow> bool" where
  "plain_label row =
     (case row_type row of None \<Rightarrow> True | Some t \<Rightarrow> t = [] \<or> \<not> blank t)"

text \<open>The two rows of the specification's examples.\<close>

definition theft_row :: csv_row where
  "theft_row = \<lparr>row_latitude = Some ''26.85'', row_longitude = Some ''80.88'',
                row_type = Some ''Theft''\<rparr>"

definition bad_row :: csv_row where
  "bad_row = \<lparr>row_latitude = Some ''200'', row_longitude = Some ''80'',
              row_type = Some ''Theft''\<rparr>"

text \<open>A row with valid coordinates whose label is a single space.\<close>

definition space_row :: csv_row where
  "space_row = \<lparr>row_latitude = Some ''26.85'', row_longitude = Some ''80.88'',
                row_type = Some '' ''\<rparr>"

text \<open>
  The area filter applies to a query when \<open>lat\<close>, \<open>lng\<close> and \<open>radius\<close> are all
  supplied and all three parse to numbers.
\<close>

definition area_applies :: "zones_query \<Rightarrow> bool" where
  "area_applies q =
     (supplied (q_lat q) \<and> supplied (q_lng q) \<and> supplied (q_radius q)
      \<and> \<not> isNaN (parseFloat (cell (q_lat q))) \<and> \<not> isNaN (parseFloat (cell (q_lng q)))
      \<and> \<not> isNaN (parseFloat (cell (q_radius q))))"

text \<open>The store after a first load of a file whose only row is \<open>theft_row\<close>.\<close>

definition loaded_store :: crime_store where
  "loaded_store = loadCrimeData (FileStream [theft_row] Ended) initial_store"

section \<open>Properties of the distance kernel\<close>

lemma js_sub_swap: "js_sub a b = js_neg (js_sub b a)"
  by (cases a; cases b) (simp_all add: js_sub_def)

lemma js_mul_commute: "js_mul a b = js_mul b a"
  by (cases a; cases b) (simp_all add: mult.commute)

lemma js_div_neg: "js_div (js_neg d) (Fin 2) = js_neg (js_div d (Fin 2))"
  by (cases d) (simp_all add: inf_of_sign_def)

lemma Math_sin_neg: "Math_sin (js_neg x) = js_neg (Math_sin x)"
  by (cases x) simp_all

lemma js_mul_neg_neg:
  "js_mul (js_mul c (js_neg (Math_sin x))) (js_neg (Math_sin x))
   = js_mul (js_mul c (Math_sin x)) (Math_sin x)"
  by (cases c; cases x) (simp_all add: inf_of_sign_def sgn_if)

lemma js_mul_neg_self:
  "js_mul (js_neg (Math_sin x)) (js_neg (Math_sin x)) = js_mul (Math_sin x) (Math_sin x)"
  by (cases x) simp_all

lemma half_sin_swap:
  "Math_sin (js_div (js_sub a b) (Fin 2)) = js_neg (Math_sin (js_div (js_sub b a) (Fin 2)))"
proof -
  have "js_sub a b = js_neg (js_sub b a)" by (rule js_sub_swap)
  then show ?thesis by (simp add: js_div_neg Math_sin_neg)
qed

lemma calculateDistance_same: "calculateDistance (Fin x) (Fin y) (Fin x) (Fin y) = Fin 0"
  by (simp add: calculateDistance_def toRadians_def Math_PI_def js_sub_def atan2_real_def)

text \<open>
  C8. \<open>calculateDistance\<close> is symmetric: swapping the two points gives the same
  distance, for all arguments (NaN and the infinities included). The distance from a
  point with finite coordinates to itself is 0. Both hold in the exact arithmetic of this
  model; the claim's "within rounding" is about the doubles, whose rounding the model
  leaves out.
\<close>

theorem calculateDistance_symmetric_zero:
  "calculateDistance lat1 lng1 lat2 lng2 = calculateDistance lat2 lng2 lat1 lng1
   \<and> calculateDistance (Fin x) (Fin y) (Fin x) (Fin y) = Fin 0"
proof
  have s1: "Math_sin (js_div (js_sub (toRadians lat2) (toRadians lat1)) (Fin 2))
            = js_neg (Math_sin (js_div (js_sub (toRadians lat1) (toRadians lat2)) (Fin 2)))"
    by (rule half_sin_swap)
  have s2: "Math_sin (js_div (js_sub (toRadians lng2) (toRadians lng1)) (Fin 2))
            = js_neg (Math_sin (js_div (js_sub (toRadians lng1) (toRadians lng2)) (Fin 2)))"
    by (rule half_sin_swap)
  have c: "js_mul (Math_cos (toRadians lat1)) (Math_cos (toRadians lat2))
           = js_mul (Math_cos (toRadians lat2)) (Math_cos (toRadians lat1))"
    by (rule js_mul_commute)
  show "calculateDistance lat1 lng1 lat2 lng2 = calculateDistance lat2 lng2 lat1 lng1"
    unfolding calculateDistance_def Let_def s1 s2 c js_mul_neg_neg js_mul_neg_self ..
next
  show "calculateDistance (Fin x) (Fin y) (Fin x) (Fin y) = Fin 0"
    by (rule calculateDistance_same)
qed

section \<open>Properties of the proximity query\<close>

lemma js_le_trans: "js_le a b \<Longrightarrow> js_le b c \<Longrightarrow> js_le a c"
  by (cases a; cases b; cases c) simp_all

lemma js_le_total: "\<not> isNaN a \<Longrightarrow> \<not> isNaN b \<Longrightarrow> js_le a b \<or> js_le b a"
  by (cases a; cases b) auto

lemma js_le_not_NaN: "js_le a b \<Longrightarrow> \<not> isNaN a \<and> \<not> isNaN b"
  by (cases a; cases b) simp_all

lemma compare_gt_iff:
  "\<not> isNaN a \<Longrightarrow> \<not> isNaN b \<Longrightarrow> js_gt (js_sub a b) (Fin 0) = (\<not> js_le a b)"
  by (cases a; cases b) (auto simp: js_gt_def js_sub_def)

lemma mset_sort_insert: "mset (sort_insert cmp x ys) = add_mset x (mset ys)"
  by (induction ys) simp_all

lemma mset_js_sort: "mset (js_sort cmp xs) = mset xs"
  by (induction xs) (simp_all add: js_sort_def mset_sort_insert)

lemma set_sort_insert: "set (sort_insert cmp x ys) = insert x (set ys)"
  by (induction ys) auto

lemma sorted_sort_insert:
  assumes "\<not> isNaN (f x)" and "\<forall>y\<in>set ys. \<not> isNaN (f y)"
    and "sorted_wrt (\<lambda>a b. js_le (f a) (f b)) ys"
  shows "sorted_wrt (\<lambda>a b. js_le (f a) (f b)) (sort_insert (\<lambda>a b. js_sub (f a) (f b)) x ys)"
  using assms
proof (induction ys)
  case Nil
  then show ?case by simp
next
  case (Cons y ys)
  show ?case
  proof (cases "js_le (f x) (f y)")
    case True
    then have "\<forall>z\<in>set ys. js_le (f x) (f z)"
      using Cons.prems(3) by (auto intro: js_le_trans)
    then show ?thesis
      using True Cons.prems by (simp add: compare_gt_iff)
  next
    case False
    then have yx: "js_le (f y) (f x)"
      using js_le_total [of "f x" "f y"] Cons.prems by simp
    have "sorted_wrt (\<lambda>a b. js_le (f a) (f b)) (sort_insert (\<lambda>a b. js_sub (f a) (f b)) x ys)"
      using Cons by simp
    then show ?thesis
      using False yx Cons.prems by (simp add: compare_gt_iff set_sort_insert)
  qed
qed

lemma sorted_js_sort:
  "\<forall>y\<in>set xs. \<not> isNaN (f y) \<Longrightarrow>
   sorted_wrt (\<lambda>a b. js_le (f a) (f b)) (js_sort (\<lambda>a b. js_sub (f a) (f b)) xs)"
proof (induction xs)
  case Nil
  then show ?case by (simp add: js_sort_def)
next
  case (Cons x xs)
  then have "sorted_wrt (\<lambda>a b. js_le (f a) (f b)) (js_sort (\<lambda>a b. js_sub (f a) (f b)) xs)"
    by simp
  moreover have "\<forall>y\<in>set (js_sort (\<lambda>a b. js_sub (f a) (f b)) xs). \<not> isNaN (f y)"
    using Cons.prems mset_js_sort [of "\<lambda>a b. js_sub (f a) (f b)" xs]
    by (metis list.set_intros(2) set_mset_mset)
  ultimately show ?case
    using Cons.prems sorted_sort_insert [of f x "js_sort (\<lambda>a b. js_sub (f a) (f b)) xs"]
    by (simp add: js_sort_def)
qed

text \<open>The scan keeps, in order, the entries that pass its three tests.\<close>

lemma annotate_with_distance:
  "annotate lat lng e = with_distance (snd e) (distance_from lat lng (snd e))"
  by (simp add: annotate_def with_distance_def)

lemma nearby_scan_filter:
  "nearby_scan lat lng radius ex users acc =
     acc @ map (annotate lat lng)
             (filter (\<lambda>e. \<not> (truthy ex \<and> fst e = ex)
                        \<and> \<not> isNaN (user.latitude (snd e)) \<and> \<not> isNaN (user.longitude (snd e))
                        \<and> js_le (distance_from lat lng (snd e)) radius) users)"
  by (induction users arbitrary: acc)
     (auto simp: annotate_with_distance distance_from_def Let_def)

lemma toRadians_cases:
  "toRadians (Fin x) = Fin (x * (pi / 180))" "toRadians PInf = PInf" "toRadians NInf = NInf"
  "toRadians NaN = NaN"
  by (simp_all add: toRadians_def Math_PI_def inf_of_sign_def)

lemma calculateDistance_not_finite:
  assumes "\<not> is_finite a \<or> \<not> is_finite b"
  shows "calculateDistance (Fin x) (Fin y) a b = NaN"
  using assms
  by (cases a; cases b)
     (simp_all add: calculateDistance_def toRadians_cases js_sub_def inf_of_sign_def)

lemma is_finite_not_NaN: "is_finite a \<Longrightarrow> \<not> isNaN a"
  by (cases a) simp_all

lemma scan_test_is_match:
  assumes "truthy (fst e)"
  shows "(\<not> (truthy ex \<and> fst e = ex)
          \<and> \<not> isNaN (user.latitude (snd e)) \<and> \<not> isNaN (user.longitude (snd e))
          \<and> js_le (distance_from (Fin x) (Fin y) (snd e)) radius)
         = nearby_match (Fin x) (Fin y) radius ex e"
proof -
  have ex: "(truthy ex \<and> fst e = ex) = (fst e = ex)"
    using assms by auto
  have fin: "js_le (distance_from (Fin x) (Fin y) (snd e)) radius
             \<Longrightarrow> is_finite (user.latitude (snd e)) \<and> is_finite (user.longitude (snd e))"
    using calculateDistance_not_finite [of "user.latitude (snd e)" "user.longitude (snd e)" x y]
    by (cases "is_finite (user.latitude (snd e)) \<and> is_finite (user.longitude (snd e))")
       (auto simp: distance_from_def)
  show ?thesis
    unfolding nearby_match_def ex using fin is_finite_not_NaN by blast
qed

lemma directory_ok_truthy: "directory_ok users \<Longrightarrow> e \<in> set users \<Longrightarrow> truthy (fst e)"
  by (auto simp: directory_ok_def list_all_iff)

lemma findNearbyUsers_numeric:
  assumes "directory_ok users" and "parseFloat la = Fin x" and "parseFloat lo = Fin y"
  shows "findNearbyUsers la lo radius ex users =
         js_sort (\<lambda>a b. js_sub (distance a) (distance b))
           (map (annotate (Fin x) (Fin y)) (filter (nearby_match (Fin x) (Fin y) radius ex) users))"
proof -
  have "filter (\<lambda>e. \<not> (truthy ex \<and> fst e = ex)
                        \<and> \<not> isNaN (user.latitude (snd e)) \<and> \<not> isNaN (user.longitude (snd e))
                        \<and> js_le (distance_from (Fin x) (Fin y) (snd e)) radius) users
        = filter (nearby_match (Fin x) (Fin y) radius ex) users"
  proof (rule filter_cong [OF refl])
    fix e
    assume "e \<in> set users"
    then have "truthy (fst e)"
      by (rule directory_ok_truthy [OF assms(1)])
    then show "(\<not> (truthy ex \<and> fst e = ex)
          \<and> \<not> isNaN (user.latitude (snd e)) \<and> \<not> isNaN (user.longitude (snd e))
          \<and> js_le (distance_from (Fin x) (Fin y) (snd e)) radius)
         = nearby_match (Fin x) (Fin y) radius ex e"
      by (rule scan_test_is_match)
  qed
  then show ?thesis
    using assms(2,3) by (simp add: findNearbyUsers_def nearby_scan_filter Let_def)
qed

lemma distance_annotate: "distance (annotate lat lng e) = distance_from lat lng (snd e)"
  by (simp add: annotate_def)

lemma stored_user_annotate: "stored_user (annotate lat lng e) = snd e"
  by (simp add: annotate_def stored_user_def)

lemma set_js_sort: "set (js_sort cmp xs) = set xs"
  using mset_js_sort [of cmp xs] by (metis set_mset_mset)

lemma demo_ok: "directory_ok demo_directory"
  by (simp add: directory_ok_def demo_directory_def)

lemma spread_ok: "directory_ok spread_directory"
  by (simp add: directory_ok_def spread_directory_def)

lemma parseFloat_abc: "parseFloat_string ''abc'' = NaN"
  by (simp add: parseFloat_string_def is_ws_def is_digit_def)

text \<open>
  The distance from the origin to the pole is a quarter of the great circle, the distance
  to the opposite point of the equator is half of it.
\<close>

lemma distance_to_pole:
  "calculateDistance (Fin 0) (Fin 0) (Fin 90) (Fin 0) = Fin (of_int \<lfloor>6371000 * (pi / 2) + 1 / 2\<rfloor>)"
proof -
  have half: "sin (pi / 4) * sin (pi / 4) = 1 / 2"
    by (simp add: sin_45 flip: power2_eq_square) (simp add: power_divide)
  have root: "(0::real) < sqrt (1 / 2)"
    by simp
  have angle: "atan2_real (sqrt (1 / 2)) (sqrt (1 / 2)) = pi / 4"
    using root by (simp add: atan2_real_def arctan_one)
  have rad: "toRadians (Fin 90) = Fin (pi / 2)" "toRadians (Fin 0) = Fin 0"
    by (simp_all add: toRadians_cases)
  have a: "js_add
             (js_mul (Math_sin (js_div (js_sub (Fin (pi / 2)) (Fin 0)) (Fin 2)))
                (Math_sin (js_div (js_sub (Fin (pi / 2)) (Fin 0)) (Fin 2))))
             (js_mul
                (js_mul (js_mul (Math_cos (Fin 0)) (Math_cos (Fin (pi / 2))))
                   (Math_sin (js_div (js_sub (Fin 0) (Fin 0)) (Fin 2))))
                (Math_sin (js_div (js_sub (Fin 0) (Fin 0)) (Fin 2))))
           = Fin (1 / 2)"
    using half by (simp add: js_sub_def)
  have "Math_atan2 (Math_sqrt (Fin (1 / 2))) (Math_sqrt (js_sub (Fin 1) (Fin (1 / 2))))
        = Fin (atan2_real (sqrt (1 / 2)) (sqrt (1 / 2)))"
    by (simp add: js_sub_def)
  then have c: "Math_atan2 (Math_sqrt (Fin (1 / 2))) (Math_sqrt (js_sub (Fin 1) (Fin (1 / 2))))
        = Fin (pi / 4)"
    by (simp only: angle)
  show ?thesis
    unfolding calculateDistance_def Let_def rad a c by simp
qed

lemma distance_to_opposite:
  "calculateDistance (Fin 0) (Fin 0) (Fin 0) (Fin 180) = Fin (of_int \<lfloor>6371000 * pi + 1 / 2\<rfloor>)"
proof -
  have rad: "toRadians (Fin 180) = Fin pi" "toRadians (Fin 0) = Fin 0"
    by (simp_all add: toRadians_cases)
  have a: "js_add
             (js_mul (Math_sin (js_div (js_sub (Fin 0) (Fin 0)) (Fin 2)))
                (Math_sin (js_div (js_sub (Fin 0) (Fin 0)) (Fin 2))))
             (js_mul
                (js_mul (js_mul (Math_cos (Fin 0)) (Math_cos (Fin 0)))
                   (Math_sin (js_div (js_sub (Fin pi) (Fin 0)) (Fin 2))))
                (Math_sin (js_div (js_sub (Fin pi) (Fin 0)) (Fin 2))))
           = Fin 1"
    by (simp add: js_sub_def)
  show ?thesis
    unfolding calculateDistance_def Let_def rad a
    by (simp add: js_sub_def atan2_real_def)
qed

lemma pi_ge_3: "3 \<le> pi"
  using sin_x_le_x [of "pi / 6"] by (simp add: sin_30)

lemma pole_within:
  "(0::int) < \<lfloor>6371000 * (pi / 2) + 1 / 2\<rfloor>" "\<lfloor>6371000 * (pi / 2) + 1 / 2\<rfloor> \<le> (15000000::int)"
proof -
  have "(1::real) \<le> 6371000 * (pi / 2) + 1 / 2"
    using pi_ge_3 by simp
  then show "(0::int) < \<lfloor>6371000 * (pi / 2) + 1 / 2\<rfloor>"
    by linarith
  have "6371000 * (pi / 2) + 1 / 2 < (15000001::real)"
    using pi_less_4 by simp
  then show "\<lfloor>6371000 * (pi / 2) + 1 / 2\<rfloor> \<le> (15000000::int)"
    by linarith
qed

lemma opposite_beyond: "(15000000::int) < \<lfloor>6371000 * pi + 1 / 2\<rfloor>"
proof -
  have "(15000001::real) \<le> 6371000 * pi + 1 / 2"
    using pi_ge_3 by simp
  then show ?thesis
    by linarith
qed

text \<open>
  C1. In a well-formed directory, when the center parses to finite numbers \<open>x\<close> and
  \<open>y\<close>, the result of \<open>findNearbyUsers\<close> holds exactly the entries that are not the
  excluded identity, have finite stored coordinates and lie within the radius, each once
  and each with the fields of the stored entry and, as \<open>distance\<close>, the distance of that
  entry from the center. The \<open>distance\<close> of every result is the distance of its stored
  coordinates from the center, and the result is sorted by ascending distance, read from
  the \<open>distance\<close> field or computed from the coordinates. When a center coordinate does
  not parse to a number the result is empty. The radius is arbitrary, so the claim's
  \<open>r \<ge> 0\<close> is covered; every reachable directory is well-formed, as shown further down.
\<close>

theorem findNearbyUsers_exact_sorted:
  assumes "directory_ok users"
  shows "(parseFloat la = Fin x \<and> parseFloat lo = Fin y \<longrightarrow>
            mset (findNearbyUsers la lo radius ex users)
              = mset (map (annotate (Fin x) (Fin y))
                        (filter (nearby_match (Fin x) (Fin y) radius ex) users))
            \<and> map distance (findNearbyUsers la lo radius ex users)
              = map (\<lambda>n. distance_from (Fin x) (Fin y) (stored_user n))
                  (findNearbyUsers la lo radius ex users)
            \<and> sorted_wrt (\<lambda>a b. js_le (distance_from (Fin x) (Fin y) (stored_user a))
                                  (distance_from (Fin x) (Fin y) (stored_user b)))
                (findNearbyUsers la lo radius ex users)
            \<and> sorted_wrt (\<lambda>a b. js_le (distance a) (distance b))
                (findNearbyUsers la lo radius ex users))
         \<and> (isNaN (parseFloat la) \<or> isNaN (parseFloat lo) \<longrightarrow>
              findNearbyUsers la lo radius ex users = [])"
proof (intro conjI impI)
  assume c: "parseFloat la = Fin x \<and> parseFloat lo = Fin y"
  let ?kept = "map (annotate (Fin x) (Fin y)) (filter (nearby_match (Fin x) (Fin y) radius ex) users)"
  let ?found = "findNearbyUsers la lo radius ex users"
  have eq: "?found = js_sort (\<lambda>a b. js_sub (distance a) (distance b)) ?kept"
    using findNearbyUsers_numeric [OF assms] c by simp
  show "mset ?found = mset ?kept"
    by (simp add: eq mset_js_sort)
  have "set ?found = set ?kept"
    by (simp only: eq set_js_sort)
  then have own: "\<forall>n\<in>set ?found. distance n = distance_from (Fin x) (Fin y) (stored_user n)"
    by (auto simp: distance_annotate stored_user_annotate)
  then show "map distance ?found = map (\<lambda>n. distance_from (Fin x) (Fin y) (stored_user n)) ?found"
    by simp
  have "\<forall>n\<in>set ?kept. \<not> isNaN (distance n)"
    using js_le_not_NaN by (auto simp: distance_annotate nearby_match_def)
  then show by_field: "sorted_wrt (\<lambda>a b. js_le (distance a) (distance b)) ?found"
    unfolding eq by (rule sorted_js_sort)
  show "sorted_wrt (\<lambda>a b. js_le (distance_from (Fin x) (Fin y) (stored_user a))
                                  (distance_from (Fin x) (Fin y) (stored_user b))) ?found"
    using by_field own by (auto intro: sorted_wrt_mono_rel [rotated])
next
  assume "isNaN (parseFloat la) \<or> isNaN (parseFloat lo)"
  then show "findNearbyUsers la lo radius ex users = []"
    by (auto simp: findNearbyUsers_def)
qed

text \<open>
  A run on \<open>spread_directory\<close> from the origin with radius 15000 km, excluding \<open>B\<close>:
  \<open>Q\<close> is beyond the radius, \<open>B\<close> is excluded, and \<open>P\<close>, stored first, comes after
  \<open>A\<close> because it is farther away. A center that is not a number gives no result.
\<close>

theorem findNearbyUsers_exact_sorted_witness:
  "directory_ok spread_directory
   \<and> parseFloat (Num (Fin 0)) = Fin 0
   \<and> mset (findNearbyUsers (Num (Fin 0)) (Num (Fin 0)) (Fin 15000000) (Str ''B'') spread_directory)
       = mset (map (annotate (Fin 0) (Fin 0))
                 (filter (nearby_match (Fin 0) (Fin 0) (Fin 15000000) (Str ''B''))
                    spread_directory))
   \<and> sorted_wrt (\<lambda>a b. js_le (distance a) (distance b))
         (findNearbyUsers (Num (Fin 0)) (Num (Fin 0)) (Fin 15000000) (Str ''B'') spread_directory)
   \<and> findNearbyUsers (Num (Fin 0)) (Num (Fin 0)) (Fin 15000000) (Str ''B'') spread_directory
       = [\<lparr>username = Str ''A'', latitude = Fin 0, longitude = Fin 0, lastSeen = Fin 2,
           distance = Fin 0\<rparr>,
          \<lparr>username = Str ''P'', latitude = Fin 90, longitude = Fin 0, lastSeen = Fin 1,
           distance = Fin (of_int \<lfloor>6371000 * (pi / 2) + 1 / 2\<rfloor>)\<rparr>]
   \<and> js_lt (Fin 0) (Fin (of_int \<lfloor>6371000 * (pi / 2) + 1 / 2\<rfloor>))
   \<and> distance_from (Fin 0) (Fin 0) (snd (spread_directory ! 2))
       = Fin (of_int \<lfloor>6371000 * pi + 1 / 2\<rfloor>)
   \<and> \<not> js_le (Fin (of_int \<lfloor>6371000 * pi + 1 / 2\<rfloor>)) (Fin 15000000)
   \<and> isNaN (parseFloat (Str ''abc''))
   \<and> findNearbyUsers (Str ''abc'') (Num (Fin 0)) (Fin 15000000) Null spread_directory = []"
proof -
  define dp :: real where "dp = of_int \<lfloor>6371000 * (pi / 2) + 1 / 2\<rfloor>"
  define dq :: real where "dq = of_int \<lfloor>6371000 * pi + 1 / 2\<rfloor>"
  have dp: "0 < dp" "dp \<le> 15000000"
    using pole_within by (simp_all add: dp_def)
  have dq: "15000000 < dq"
    using opposite_beyond by (simp add: dq_def)
  have pole: "calculateDistance (Fin 0) (Fin 0) (Fin 90) (Fin 0) = Fin dp"
    by (simp only: distance_to_pole dp_def)
  have opp: "calculateDistance (Fin 0) (Fin 0) (Fin 0) (Fin 180) = Fin dq"
    by (simp only: distance_to_opposite dq_def)
  have run: "findNearbyUsers (Num (Fin 0)) (Num (Fin 0)) (Fin 15000000) (Str ''B'') spread_directory
       = [\<lparr>username = Str ''A'', latitude = Fin 0, longitude = Fin 0, lastSeen = Fin 2,
           distance = Fin 0\<rparr>,
          \<lparr>username = Str ''P'', latitude = Fin 90, longitude = Fin 0, lastSeen = Fin 1,
           distance = Fin dp\<rparr>]"
    using dp dq
    by (simp add: findNearbyUsers_def spread_directory_def pole opp calculateDistance_same
        with_distance_def js_sort_def js_sub_def js_gt_def Let_def)
  have far: "distance_from (Fin 0) (Fin 0) (snd (spread_directory ! 2)) = Fin dq"
    by (simp add: distance_from_def spread_directory_def opp)
  have numeric: "parseFloat (Num (Fin 0)) = Fin 0 \<and> parseFloat (Num (Fin 0)) = Fin 0"
    by simp
  have nan: "isNaN (parseFloat (Str ''abc'')) \<or> isNaN (parseFloat (Num (Fin 0)))"
    by (simp add: parseFloat_abc)
  note general = findNearbyUsers_exact_sorted [OF spread_ok,
        where la = "Num (Fin 0)" and lo = "Num (Fin 0)" and x = 0 and y = 0
          and radius = "Fin 15000000" and ex = "Str ''B''"]
  note empty = findNearbyUsers_exact_sorted [OF spread_ok,
        where la = "Str ''abc''" and lo = "Num (Fin 0)" and radius = "Fin 15000000" and ex = Null]
  have g1: "mset (findNearbyUsers (Num (Fin 0)) (Num (Fin 0)) (Fin 15000000) (Str ''B'') spread_directory)
       = mset (map (annotate (Fin 0) (Fin 0))
                 (filter (nearby_match (Fin 0) (Fin 0) (Fin 15000000) (Str ''B''))
                    spread_directory))"
    and g2: "sorted_wrt (\<lambda>a b. js_le (distance a) (distance b))
         (findNearbyUsers (Num (Fin 0)) (Num (Fin 0)) (Fin 15000000) (Str ''B'') spread_directory)"
    using general numeric by blast+
  have g3: "findNearbyUsers (Str ''abc'') (Num (Fin 0)) (Fin 15000000) Null spread_directory = []"
    using empty nan by blast
  have cmp: "js_lt (Fin 0) (Fin dp)" "\<not> js_le (Fin dq) (Fin 15000000)"
    using dp dq by simp_all
  show ?thesis
    using spread_ok g1 g2 g3 run far cmp nan
    unfolding dp_def dq_def by (simp add: parseFloat_abc)
qed

section \<open>Properties of the directory\<close>

lemma set_update_subset: "set (AList.update k v al) \<subseteq> insert (k, v) (set al)"
  by (induction al) auto

lemma directory_ok_update:
  assumes "directory_ok users" and "username u = name" and "truthy name"
  shows "directory_ok (AList.update name u users)"
proof -
  have "distinct (map fst (AList.update name u users))"
    using assms(1) by (simp add: directory_ok_def distinct_update)
  moreover have "list_all (\<lambda>(n, v). username v = n \<and> truthy n) (AList.update name u users)"
    using assms set_update_subset [of name u users]
    by (auto simp: directory_ok_def list_all_iff)
  ultimately show ?thesis
    by (simp add: directory_ok_def)
qed

lemma directory_ok_filter: "directory_ok users \<Longrightarrow> directory_ok (filter P users)"
  by (auto simp: directory_ok_def list_all_iff distinct_map_filter)

lemma directory_ok_delete: "directory_ok users \<Longrightarrow> directory_ok (AList.delete name users)"
  by (simp add: AList.delete_eq directory_ok_filter)

lemma mockUsers_named: "list_all (\<lambda>u. truthy (username u)) (mockUsers t0)"
  by (simp add: mockUsers_def)

lemma directory_ok_foldl_update:
  "directory_ok users \<Longrightarrow> list_all (\<lambda>u. truthy (username u)) us \<Longrightarrow>
   directory_ok (foldl (\<lambda>m u. AList.update (username u) u m) users us)"
  by (induction us arbitrary: users) (simp_all add: directory_ok_update)

lemma directory_ok_initializeUsers:
  "directory_ok users \<Longrightarrow> directory_ok (initializeUsers t0 users)"
  unfolding initializeUsers_def by (rule directory_ok_foldl_update [OF _ mockUsers_named])

lemma directory_ok_addUser: "directory_ok users \<Longrightarrow> directory_ok (snd (addUser now ud users))"
  by (simp add: addUser_def Let_def directory_ok_update)

text \<open>The sweep deletes the keys of the expired entries that it visits.\<close>

lemma cleanup_loop_filter:
  "cleanup_loop now maxAge es (users, n) =
     (filter (\<lambda>e. fst e \<notin> fst ` set (filter (expired now maxAge) es)) users,
      n + length (filter (expired now maxAge) es))"
proof (induction es arbitrary: users n)
  case Nil
  then show ?case by simp
next
  case (Cons e es)
  obtain name u where e: "e = (name, u)" by (cases e)
  show ?case
  proof (cases "expired now maxAge (name, u)")
    case True
    have "filter (\<lambda>e. fst e \<notin> fst ` set (filter (expired now maxAge) es)) (AList.delete name users)
          = filter (\<lambda>e. fst e \<notin> insert name (fst ` set (filter (expired now maxAge) es))) users"
      by (induction users) (auto simp: AList.delete_eq)
    then show ?thesis
      using True Cons.IH [of "AList.delete name users" "n + 1"]
      by (simp add: e expired_def Let_def)
  next
    case False
    then show ?thesis
      using Cons.IH [of users n] by (simp add: e expired_def Let_def)
  qed
qed

lemma distinct_keys_expired:
  assumes "distinct (map fst users)" and "e \<in> set users"
  shows "(fst e \<in> fst ` set (filter P users)) = P e"
proof
  assume "fst e \<in> fst ` set (filter P users)"
  then obtain e' where e': "e' \<in> set users" "P e'" "fst e' = fst e"
    by auto
  then have "e' = e"
    using assms by (metis eq_key_imp_eq_value prod.collapse)
  then show "P e" using e' by simp
next
  assume "P e"
  then show "fst e \<in> fst ` set (filter P users)"
    using assms(2) by auto
qed

lemma cleanupOldUsers_filter:
  assumes "distinct (map fst users)"
  shows "cleanupOldUsers now maxAge users =
           (length (filter (expired now maxAge) users),
            filter (\<lambda>e. \<not> expired now maxAge e) users)"
proof -
  have "filter (\<lambda>e. fst e \<notin> fst ` set (filter (expired now maxAge) users)) users
        = filter (\<lambda>e. \<not> expired now maxAge e) users"
  proof (rule filter_cong [OF refl])
    fix e
    assume "e \<in> set users"
    then show "(fst e \<notin> fst ` set (filter (expired now maxAge) users)) = (\<not> expired now maxAge e)"
      using distinct_keys_expired [OF assms, of e "expired now maxAge"] by simp
  qed
  then show ?thesis
    by (simp add: cleanupOldUsers_def cleanup_loop_filter)
qed

lemma directory_ok_cleanup:
  assumes "directory_ok users"
  shows "directory_ok (snd (cleanupOldUsers now maxAge users))"
proof -
  have "distinct (map fst users)"
    using assms by (simp add: directory_ok_def)
  then have "snd (cleanupOldUsers now maxAge users) = filter (\<lambda>e. \<not> expired now maxAge e) users"
    by (simp add: cleanupOldUsers_filter)
  then show ?thesis
    using assms by (simp add: directory_ok_filter)
qed

lemma reachable_ok: "reachable users \<Longrightarrow> directory_ok users"
proof (induction rule: reachable.induct)
  case reach_empty
  then show ?case by (simp add: directory_ok_def)
next
  case (reach_init users t0)
  show ?case by (rule directory_ok_initializeUsers [OF reach_init.IH])
next
  case (reach_add users now ud)
  show ?case by (rule directory_ok_addUser [OF reach_add.IH])
next
  case (reach_remove users name)
  show ?case using reach_remove.IH by (simp add: removeUser_def directory_ok_delete)
next
  case (reach_cleanup users now maxAgeMs)
  show ?case by (rule directory_ok_cleanup [OF reach_cleanup.IH])
qed

text \<open>
  C10. In every reachable directory each entry is stored under its own username, and so
  \<open>getUser name\<close>, when it returns an entry, returns one whose username is
  \<open>name\<close>. The reachable directories are the empty one and those obtained from it by
  \<open>initializeUsers\<close>, \<open>addUser\<close>, \<open>removeUser\<close> and \<open>cleanupOldUsers\<close>, so the
  property holds after initialization and is preserved by every operation.
\<close>

theorem stored_identity_is_key:
  assumes "reachable users"
  shows "list_all (\<lambda>(name, u). username u = name) users
         \<and> (getUser name users = Some u \<longrightarrow> username u = name)"
proof -
  have ok: "directory_ok users"
    using assms by (rule reachable_ok)
  then have all: "list_all (\<lambda>(name, u). username u = name) users"
    by (auto simp: directory_ok_def list_all_iff)
  have "getUser name users = Some u \<Longrightarrow> username u = name"
  proof -
    assume "getUser name users = Some u"
    then have "(name, u) \<in> set users"
      by (simp add: getUser_def map_of_SomeD)
    then show "username u = name"
      using all by (auto simp: list_all_iff)
  qed
  then show ?thesis using all by simp
qed

theorem stored_identity_is_key_witness:
  "reachable (snd (addUser 5 \<lparr>ud_username = Str ''Zed'', ud_latitude = Str ''1.5'',
                               ud_longitude = Num (Fin 2), ud_lastSeen = None\<rparr>
                     (initializeUsers 0 [])))
   \<and> getUser (Str ''Zed'')
         (snd (addUser 5 \<lparr>ud_username = Str ''Zed'', ud_latitude = Str ''1.5'',
                            ud_longitude = Num (Fin 2), ud_lastSeen = None\<rparr>
                  (initializeUsers 0 [])))
       = Some \<lparr>username = Str ''Zed'', latitude = Fin 1.5, longitude = Fin 2,
                lastSeen = Fin 5\<rparr>
   \<and> username \<lparr>username = Str ''Zed'', latitude = Fin 1.5, longitude = Fin 2,
                  lastSeen = Fin 5\<rparr> = Str ''Zed''"
proof -
  let ?ud = "\<lparr>ud_username = Str ''Zed'', ud_latitude = Str ''1.5'',
              ud_longitude = Num (Fin 2), ud_lastSeen = None\<rparr>"
  let ?users = "snd (addUser 5 ?ud (initializeUsers 0 []))"
  let ?zed = "\<lparr>username = Str ''Zed'', latitude = Fin 1.5, longitude = Fin 2,
               lastSeen = Fin 5\<rparr>"
  have r: "reachable ?users"
    by (intro reach_add reach_init reach_empty)
  have "parseFloat_string ''1.5'' = Fin 1.5"
    by (simp add: parseFloat_string_def is_ws_def is_digit_def digits_value_def
        exponent_part_def scale10_def number_of_decimal_def)
  then have g: "getUser (Str ''Zed'') ?users = Some ?zed"
    by (simp add: addUser_def getUser_def update_conv')
  show ?thesis
    using r g stored_identity_is_key [OF r, of "Str ''Zed''" ?zed] by simp
qed

text \<open>
  C5. In a well-formed directory, \<open>cleanupOldUsers\<close> at time \<open>now\<close> removes exactly the
  entries whose age \<open>now - lastSeen\<close> is greater than \<open>maxAge\<close>, keeps all the others
  unchanged and in order, and returns the number of entries removed. Run again at the same
  time on the result, it removes nothing and returns 0.
\<close>

theorem cleanupOldUsers_exact:
  assumes "directory_ok users"
  shows "cleanupOldUsers now maxAge users =
           (length (filter (expired now maxAge) users),
            filter (\<lambda>e. \<not> expired now maxAge e) users)
         \<and> cleanupOldUsers now maxAge (snd (cleanupOldUsers now maxAge users)) =
             (0, snd (cleanupOldUsers now maxAge users))"
proof -
  have d: "distinct (map fst users)"
    using assms by (simp add: directory_ok_def)
  have first: "cleanupOldUsers now maxAge users =
           (length (filter (expired now maxAge) users),
            filter (\<lambda>e. \<not> expired now maxAge e) users)"
    by (rule cleanupOldUsers_filter [OF d])
  have d': "distinct (map fst (filter (\<lambda>e. \<not> expired now maxAge e) users))"
    using d by (rule distinct_map_filter)
  have "cleanupOldUsers now maxAge (filter (\<lambda>e. \<not> expired now maxAge e) users) =
          (0, filter (\<lambda>e. \<not> expired now maxAge e) users)"
    by (simp add: cleanupOldUsers_filter [OF d'])
  then show ?thesis
    using first by simp
qed

theorem cleanupOldUsers_exact_witness:
  "directory_ok demo_directory
   \<and> cleanupOldUsers 10000 (Fin 6000) demo_directory = (1, tl demo_directory)
   \<and> filter (expired 10000 (Fin 6000)) demo_directory = [hd demo_directory]
   \<and> cleanupOldUsers 10000 (Fin 6000) (snd (cleanupOldUsers 10000 (Fin 6000) demo_directory))
       = (0, tl demo_directory)"
proof -
  have f: "filter (expired 10000 (Fin 6000)) demo_directory = [hd demo_directory]"
    by (simp add: demo_directory_def expired_def js_sub_def js_gt_def)
  have k: "filter (\<lambda>e. \<not> expired 10000 (Fin 6000) e) demo_directory = tl demo_directory"
    by (simp add: demo_directory_def expired_def js_sub_def js_gt_def)
  note sweep = cleanupOldUsers_exact [OF demo_ok, of 10000 "Fin 6000"]
  have first: "cleanupOldUsers 10000 (Fin 6000) demo_directory = (1, tl demo_directory)"
    using sweep f k by simp
  have "cleanupOldUsers 10000 (Fin 6000) (snd (cleanupOldUsers 10000 (Fin 6000) demo_directory))
        = (0, snd (cleanupOldUsers 10000 (Fin 6000) demo_directory))"
    using sweep by (rule conjunct2)
  then have second:
    "cleanupOldUsers 10000 (Fin 6000) (snd (cleanupOldUsers 10000 (Fin 6000) demo_directory))
     = (0, tl demo_directory)"
    by (simp add: first)
  show ?thesis
    using demo_ok first f second by blast
qed

section \<open>Properties of \<open>addUser\<close>\<close>

lemma getUser_update_same: "getUser name (AList.update name u users) = Some u"
  by (simp add: getUser_def update_conv')

lemma getUser_update_other:
  "other \<noteq> name \<Longrightarrow> getUser other (AList.update name u users) = getUser other users"
  by (simp add: getUser_def update_conv')

lemma parseFloat_12: "parseFloat_string ''12'' = Fin 12"
  by (simp add: parseFloat_string_def is_ws_def is_digit_def digits_value_def
      exponent_part_def scale10_def number_of_decimal_def)

text \<open>
  C3, as the code has it. \<open>addUser\<close> tests the three fields for truthiness only. When
  username, latitude and longitude are all truthy it returns true, and afterwards the
  entry of that username holds \<open>parseFloat\<close> of each coordinate (NaN for a string that
  is not a number) and the given timestamp, or the current time when none is given; the
  other entries are as before. When the username is falsy, or a coordinate is falsy and
  not the number 0 (it is missing, empty or NaN), it returns false and the directory is
  unchanged. The number 0 as a coordinate is left out of this statement.
\<close>

theorem addUser_truthy_fields:
  "(truthy (ud_username ud) \<and> truthy (ud_latitude ud) \<and> truthy (ud_longitude ud) \<longrightarrow>
      fst (addUser now ud users) = True
      \<and> getUser (ud_username ud) (snd (addUser now ud users))
          = Some \<lparr>username = ud_username ud,
                   latitude = parseFloat (ud_latitude ud),
                   longitude = parseFloat (ud_longitude ud),
                   lastSeen = (case ud_lastSeen ud of Some t \<Rightarrow> t | None \<Rightarrow> Fin now)\<rparr>
      \<and> (\<forall>other. other \<noteq> ud_username ud \<longrightarrow>
             getUser other (snd (addUser now ud users)) = getUser other users))
   \<and> (\<not> truthy (ud_username ud)
        \<or> (\<not> truthy (ud_latitude ud) \<and> ud_latitude ud \<noteq> Num (Fin 0))
        \<or> (\<not> truthy (ud_longitude ud) \<and> ud_longitude ud \<noteq> Num (Fin 0)) \<longrightarrow>
      addUser now ud users = (False, users))"
  by (auto simp: addUser_def Let_def getUser_update_same getUser_update_other)

theorem addUser_truthy_fields_witness:
  "truthy (Str ''u'') \<and> truthy (Str ''abc'') \<and> truthy (Str ''12'')
   \<and> fst (addUser 7 \<lparr>ud_username = Str ''u'', ud_latitude = Str ''abc'',
                       ud_longitude = Str ''12'', ud_lastSeen = None\<rparr> demo_directory) = True
   \<and> getUser (Str ''u'')
         (snd (addUser 7 \<lparr>ud_username = Str ''u'', ud_latitude = Str ''abc'',
                            ud_longitude = Str ''12'', ud_lastSeen = None\<rparr> demo_directory))
       = Some \<lparr>username = Str ''u'', latitude = NaN, longitude = Fin 12, lastSeen = Fin 7\<rparr>
   \<and> getUser (Str ''A'')
         (snd (addUser 7 \<lparr>ud_username = Str ''u'', ud_latitude = Str ''abc'',
                            ud_longitude = Str ''12'', ud_lastSeen = None\<rparr> demo_directory))
       = getUser (Str ''A'') demo_directory
   \<and> \<not> truthy Undefined \<and> Undefined \<noteq> Num (Fin 0)
   \<and> addUser 7 \<lparr>ud_username = Str ''u'', ud_latitude = Undefined,
                  ud_longitude = Str ''12'', ud_lastSeen = None\<rparr> demo_directory
       = (False, demo_directory)"
  using addUser_truthy_fields [of "\<lparr>ud_username = Str ''u'', ud_latitude = Str ''abc'',
                       ud_longitude = Str ''12'', ud_lastSeen = None\<rparr>" 7 demo_directory]
    addUser_truthy_fields [of "\<lparr>ud_username = Str ''u'', ud_latitude = Undefined,
                  ud_longitude = Str ''12'', ud_lastSeen = None\<rparr>" 7 demo_directory]
  by (simp add: parseFloat_abc parseFloat_12)

text \<open>
  C3 as stated fails in both directions. A latitude that is not numeric after coercion is
  accepted and stored as NaN; the latitude 0, which is numeric and present, is rejected.
\<close>

theorem addUser_counterexample:
  "isNaN (parseFloat (Str ''abc''))
   \<and> addUser 7 \<lparr>ud_username = Str ''u'', ud_latitude = Str ''abc'', ud_longitude = Str ''12'',
                 ud_lastSeen = None\<rparr> []
       = (True, [(Str ''u'', \<lparr>username = Str ''u'', latitude = NaN, longitude = Fin 12,
                               lastSeen = Fin 7\<rparr>)])
   \<and> parseFloat (Num (Fin 0)) = Fin 0
   \<and> addUser 7 \<lparr>ud_username = Str ''u'', ud_latitude = Num (Fin 0), ud_longitude = Num (Fin 12),
                 ud_lastSeen = None\<rparr> []
       = (False, [])"
proof -
  show ?thesis
    by (simp add: addUser_def parseFloat_abc parseFloat_12)
qed

section \<open>Properties of the alert route\<close>

text \<open>
  A sender whose entry is stored at the position of the alert is among the nearby users
  of its own alert, whenever the radius is not negative.
\<close>

lemma stored_sender_is_nearby:
  assumes ok: "directory_ok users" and stored: "(name, u) \<in> set users"
    and at: "user.latitude u = Fin x" "user.longitude u = Fin y"
    and r: "js_le (Fin 0) radius"
  shows "with_distance u (Fin 0) \<in> set (findNearbyUsers (Num (Fin x)) (Num (Fin y)) radius Null users)"
proof -
  have "truthy name"
    using directory_ok_truthy [OF ok stored] by simp
  then have "name \<noteq> Null"
    by auto
  then have m: "nearby_match (Fin x) (Fin y) radius Null (name, u)"
    using at r by (simp add: nearby_match_def distance_from_def calculateDistance_same)
  have a: "annotate (Fin x) (Fin y) (name, u) = with_distance u (Fin 0)"
    using at by (simp add: annotate_with_distance distance_from_def calculateDistance_same)
  have "findNearbyUsers (Num (Fin x)) (Num (Fin y)) radius Null users
        = js_sort (\<lambda>a b. js_sub (distance a) (distance b))
            (map (annotate (Fin x) (Fin y))
               (filter (nearby_match (Fin x) (Fin y) radius Null) users))"
    by (rule findNearbyUsers_numeric [OF ok]) simp_all
  then have "set (findNearbyUsers (Num (Fin x)) (Num (Fin y)) radius Null users)
             = annotate (Fin x) (Fin y) ` {e \<in> set users. nearby_match (Fin x) (Fin y) radius Null e}"
    by (simp add: set_js_sort)
  then show ?thesis
    using stored m a by force
qed

lemma sos_post_accepted:
  assumes "truthy name" and "x \<noteq> 0" and "y \<noteq> 0"
    and "- 90 \<le> x" "x \<le> 90" "- 180 \<le> y" "y \<le> 180"
  shows "response_usernames
           (response (sos_post radius now sockets
              \<lparr>body_username = name, body_latitude = Num (Fin x), body_longitude = Num (Fin y)\<rparr>
              users))
         = map username (findNearbyUsers (Num (Fin x)) (Num (Fin y)) radius Null users)"
    and "0 < sockets \<Longrightarrow>
         emitted_usernames
           (emitted (sos_post radius now sockets
              \<lparr>body_username = name, body_latitude = Num (Fin x), body_longitude = Num (Fin y)\<rparr>
              users))
         = map username (findNearbyUsers (Num (Fin x)) (Num (Fin y)) radius Null users)"
  using assms by (simp_all add: sos_post_def Let_def js_gt_def comp_def)

lemma sarah_stored:
  "(Str ''Sarah_M'',
    \<lparr>username = Str ''Sarah_M'', latitude = Fin 40.7580, longitude = Fin (- 73.9855),
     lastSeen = Fin 0\<rparr>) \<in> set (initializeUsers 0 [])"
  by (simp add: initializeUsers_def mockUsers_def)

lemma initial_ok: "directory_ok (initializeUsers 0 [])"
  by (rule reachable_ok) (intro reach_init reach_empty)

text \<open>
  C2, evaluated. The route calls \<open>findNearbyUsers\<close> without its fourth argument, so
  nothing is excluded. On the directory of the mock users, an alert sent by
  \<open>Sarah_M\<close> from her stored position lists \<open>Sarah_M\<close> among the nearby users, both in
  the response and in the payload emitted to the dashboards.
\<close>

theorem sos_post_lists_sender:
  "Str ''Sarah_M'' \<in> set (response_usernames
       (response (sos_post default_NEARBY_RADIUS 1000 1 sarah_body (initializeUsers 0 []))))
   \<and> Str ''Sarah_M'' \<in> set (emitted_usernames
       (emitted (sos_post default_NEARBY_RADIUS 1000 1 sarah_body (initializeUsers 0 []))))"
proof -
  let ?sarah = "\<lparr>username = Str ''Sarah_M'', latitude = Fin 40.7580, longitude = Fin (- 73.9855),
     lastSeen = Fin 0\<rparr>"
  have "with_distance ?sarah (Fin 0)
        \<in> set (findNearbyUsers (Num (Fin 40.7580)) (Num (Fin (- 73.9855))) (Fin 500) Null
                 (initializeUsers 0 []))"
    by (rule stored_sender_is_nearby [OF initial_ok sarah_stored]) simp_all
  then have "Str ''Sarah_M''
        \<in> set (map username (findNearbyUsers (Num (Fin 40.7580)) (Num (Fin (- 73.9855))) (Fin 500)
                  Null (initializeUsers 0 [])))"
    by (force simp: with_distance_def)
  then show ?thesis
    by (simp add: sarah_body_def default_NEARBY_RADIUS_def sos_post_accepted)
qed

theorem sos_post_lists_sender_witness:
  "response_usernames
     (response (sos_post default_NEARBY_RADIUS 1000 1 sarah_body (initializeUsers 0 []))) \<noteq> []"
  using sos_post_lists_sender by force

text \<open>
  The same truthiness test of \<open>addUser\<close> shows in the route: an alert whose latitude is
  the string \<open>0\<close> passes the route's validation, but the number 0 that the route hands
  to \<open>addUser\<close> is rejected there, and the sender is not stored.
\<close>

lemma sos_post_zero_latitude_not_stored:
  "users_after (sos_post default_NEARBY_RADIUS 1000 0
      \<lparr>body_username = Str ''u'', body_latitude = Str ''0'', body_longitude = Str ''12''\<rparr> [])
   = []"
proof -
  have "parseFloat_string ''0'' = Fin 0"
    by (simp add: parseFloat_string_def is_ws_def is_digit_def digits_value_def
        exponent_part_def scale10_def number_of_decimal_def)
  then show ?thesis
    by (simp add: sos_post_def parseFloat_12 js_gt_def addUser_def Let_def)
qed

section \<open>Properties of the incident dataset\<close>

lemma row_valid_accepted: "row_valid row = row_accepted row"
  by (cases "parseFloat (cell (row_latitude row))"; cases "parseFloat (cell (row_longitude row))")
     (auto simp: row_valid_def row_accepted_def js_ge_def Let_def)

lemma on_data_accepted:
  "row_accepted row \<Longrightarrow> on_data row (res, lg) = (res @ [pushed_record (length res) row], lg)"
  by (simp add: on_data_def row_valid_accepted pushed_record_def)

lemma on_data_dropped:
  "\<not> row_accepted row \<Longrightarrow> on_data row (res, lg) = (res, lg @ [RowSkipped row])"
  by (simp add: on_data_def row_valid_accepted)

lemma foldl_on_data:
  "foldl (\<lambda>s row. on_data row s) (res, lg) rows =
     (res @ map (\<lambda>p. pushed_record (fst p) (snd p))
              (enumerate (length res) (filter row_accepted rows)),
      lg @ map RowSkipped (filter (\<lambda>r. \<not> row_accepted r) rows))"
proof (induction rows arbitrary: res lg)
  case Nil
  then show ?case by simp
next
  case (Cons row rows)
  show ?case
  proof (cases "row_accepted row")
    case True
    then show ?thesis
      using Cons.IH [of "res @ [pushed_record (length res) row]" lg]
      by (simp add: on_data_accepted)
  next
    case False
    then show ?thesis
      using Cons.IH [of res "lg @ [RowSkipped row]"]
      by (simp add: on_data_dropped)
  qed
qed

lemma load_rows_pushed:
  "load_rows rows = map (\<lambda>p. pushed_record (fst p) (snd p)) (enumerate 0 (filter row_accepted rows))"
  by (simp add: load_rows_def foldl_on_data)

text \<open>
  For a row whose label is missing, empty or not blank, the pushed record is the record
  that the specification asks for.
\<close>

lemma pushed_record_plain:
  "plain_label row \<Longrightarrow> pushed_record n row = accepted_record (n, row)"
  by (auto simp: pushed_record_def accepted_record_def plain_label_def row_label_def blank_def
      split: option.splits)

lemma load_rows_accepted:
  assumes "list_all plain_label rows"
  shows "load_rows rows = map accepted_record (enumerate 0 (filter row_accepted rows))"
proof -
  have "snd ` set (enumerate 0 (filter row_accepted rows)) = set (filter row_accepted rows)"
    by (metis map_snd_enumerate set_map)
  then have "\<forall>p\<in>set (enumerate 0 (filter row_accepted rows)). plain_label (snd p)"
    using assms by (auto simp: list_all_iff)
  then have "map (\<lambda>p. pushed_record (fst p) (snd p)) (enumerate 0 (filter row_accepted rows))
             = map accepted_record (enumerate 0 (filter row_accepted rows))"
    by (auto simp: pushed_record_plain)
  then show ?thesis
    by (simp add: load_rows_pushed)
qed

text \<open>Row events only touch the \<open>results\<close> array and the log of the running load.\<close>

lemma run_events_data:
  assumes "results st = Some res"
  shows "run_events (map Data rows) st =
           st\<lparr>results := Some (fst (foldl (\<lambda>s row. on_data row s) (res, logged st) rows)),
              logged := snd (foldl (\<lambda>s row. on_data row s) (res, logged st) rows)\<rparr>"
  using assms
proof (induction rows arbitrary: st res)
  case Nil
  then show ?case by (simp add: run_events_def)
next
  case (Cons row rows)
  obtain res' lg' where step: "on_data row (res, logged st) = (res', lg')"
    by (cases "on_data row (res, logged st)")
  let ?st' = "st\<lparr>results := Some res', logged := lg'\<rparr>"
  have one: "on_event (Data row) st = ?st'"
    using Cons.prems step by simp
  have "run_events (map Data rows) ?st' =
          ?st'\<lparr>results := Some (fst (foldl (\<lambda>s row. on_data row s) (res', logged ?st') rows)),
               logged := snd (foldl (\<lambda>s row. on_data row s) (res', logged ?st') rows)\<rparr>"
    by (rule Cons.IH) simp
  then show ?case
    using one step by (simp add: run_events_def)
qed

lemma run_events_append: "run_events (xs @ ys) st = run_events ys (run_events xs st)"
  by (simp add: run_events_def)

lemma run_events_single: "run_events [e] st = on_event e st"
  by (simp add: run_events_def)

lemma begin_rows:
  "run_events (map Data rows) (loadCrimeData_begin True st) =
     st\<lparr>results := Some (load_rows rows),
        logged := logged st @ map RowSkipped (filter (\<lambda>r. \<not> row_accepted r) rows),
        settled := None\<rparr>"
proof -
  have b: "results (loadCrimeData_begin True st) = Some []"
    by (simp add: loadCrimeData_begin_def)
  show ?thesis
    unfolding run_events_data [OF b]
    by (simp add: foldl_on_data load_rows_pushed loadCrimeData_begin_def)
qed

lemma loadCrimeData_end:
  "loadCrimeData (FileStream rows Ended) st =
     st\<lparr>crimeData := load_rows rows, isDataLoaded := True, results := None,
        logged := logged st @ map RowSkipped (filter (\<lambda>r. \<not> row_accepted r) rows),
        settled := Some (Resolved (load_rows rows))\<rparr>"
proof -
  have "loadCrimeData (FileStream rows Ended) st
        = on_event End (run_events (map Data rows) (loadCrimeData_begin True st))"
    by (simp only: loadCrimeData.simps stream_events.simps run_events_append run_events_single)
  then show ?thesis
    by (simp add: begin_rows)
qed

lemma loadCrimeData_error:
  "loadCrimeData (FileStream rows (ParserError e)) st =
     st\<lparr>crimeData := [], isDataLoaded := True, results := None,
        logged := logged st @ map RowSkipped (filter (\<lambda>r. \<not> row_accepted r) rows) @ [ReadError e],
        settled := Some (Rejected e)\<rparr>"
proof -
  have "loadCrimeData (FileStream rows (ParserError e)) st
        = on_event (Error e) (run_events (map Data rows) (loadCrimeData_begin True st))"
    by (simp only: loadCrimeData.simps stream_events.simps run_events_append run_events_single)
  then show ?thesis
    by (simp add: begin_rows)
qed

text \<open>
  After a failure to read the file no handler has run: the rows read so far sit in
  \<open>results\<close>, the promise is not settled, and the collection and the loaded flag are
  those of before the load.
\<close>

lemma loadCrimeData_read_failure_pending:
  "loadCrimeData (FileStream rows (ReadFailure e)) st =
     st\<lparr>results := Some (load_rows rows),
        logged := logged st @ map RowSkipped (filter (\<lambda>r. \<not> row_accepted r) rows),
        settled := None\<rparr>"
  by (simp only: loadCrimeData.simps stream_events.simps begin_rows)

lemma loadCrimeData_missing:
  "loadCrimeData FileMissing st =
     st\<lparr>crimeData := [], isDataLoaded := True, results := None,
        logged := logged st @ [FileNotFound], settled := Some (Resolved [])\<rparr>"
  by (simp add: loadCrimeData_begin_def)

lemma parse_examples:
  "parseFloat_string ''200'' = Fin 200" "parseFloat_string ''80'' = Fin 80"
  "parseFloat_string ''26.85'' = Fin 26.85" "parseFloat_string ''80.88'' = Fin 80.88"
  by (simp_all add: parseFloat_string_def is_ws_def is_digit_def digits_value_def
      exponent_part_def scale10_def number_of_decimal_def)

lemma trim_Theft: "trim ''Theft'' = ''Theft''"
  by (simp add: trim_def is_ws_def)

lemma example_rows: "\<not> row_accepted bad_row" "row_accepted theft_row" "row_accepted space_row"
  by (simp_all add: row_accepted_def bad_row_def theft_row_def space_row_def parse_examples)

lemma theft_plain: "plain_label theft_row"
  by (simp add: plain_label_def theft_row_def blank_def is_ws_def)

lemma pushed_theft: "pushed_record n theft_row = accepted_record (n, theft_row)"
  by (rule pushed_record_plain [OF theft_plain])

lemma loaded_store_data: "getCrimeData loaded_store = [accepted_record (0, theft_row)]"
  unfolding loaded_store_def loadCrimeData_end
  by (simp add: load_rows_pushed example_rows pushed_theft getCrimeData_def)

text \<open>
  The part of C6 that the code keeps. A load that reads \<open>rows\<close> to the end stores, in
  order, one record for each row that the specification accepts and nothing else, and
  logs every other row as skipped. When no label is a non-empty run of white space, each
  stored record is the one that the specification asks for: the identifier \<open>crime_i\<close>
  of the \<open>i\<close>-th accepted row, the parsed coordinates, and the trimmed label or
  \<open>Unknown\<close>. The two examples of the claim come out as it says.
\<close>

lemma loadCrimeData_plain_labels:
  "map crime_raw (crimeData (loadCrimeData (FileStream rows Ended) st)) = filter row_accepted rows"
  "logged (loadCrimeData (FileStream rows Ended) st)
     = logged st @ map RowSkipped (filter (\<lambda>r. \<not> row_accepted r) rows)"
  "list_all plain_label rows \<Longrightarrow>
   crimeData (loadCrimeData (FileStream rows Ended) st)
     = map accepted_record (enumerate 0 (filter row_accepted rows))"
proof -
  have "map crime_raw (load_rows rows) = map snd (enumerate 0 (filter row_accepted rows))"
    by (simp add: load_rows_pushed pushed_record_def comp_def)
  then show "map crime_raw (crimeData (loadCrimeData (FileStream rows Ended) st))
             = filter row_accepted rows"
    unfolding loadCrimeData_end by simp
  show "logged (loadCrimeData (FileStream rows Ended) st)
     = logged st @ map RowSkipped (filter (\<lambda>r. \<not> row_accepted r) rows)"
    unfolding loadCrimeData_end by simp
  show "list_all plain_label rows \<Longrightarrow>
   crimeData (loadCrimeData (FileStream rows Ended) st)
     = map accepted_record (enumerate 0 (filter row_accepted rows))"
    unfolding loadCrimeData_end by (simp add: load_rows_accepted)
qed

lemma loadCrimeData_examples:
  "crimeData (loadCrimeData (FileStream [bad_row] Ended) initial_store) = []"
  "crimeData (loadCrimeData (FileStream [theft_row] Ended) initial_store)
     = [\<lparr>crime_id = ''crime_1'', crime_latitude = Fin 26.85, crime_longitude = Fin 80.88,
         crime_type = ''Theft'', crime_raw = theft_row\<rparr>]"
proof -
  show "crimeData (loadCrimeData (FileStream [bad_row] Ended) initial_store) = []"
    unfolding loadCrimeData_end by (simp add: load_rows_pushed example_rows)
  have rec: "pushed_record 0 theft_row
        = \<lparr>crime_id = ''crime_1'', crime_latitude = Fin 26.85, crime_longitude = Fin 80.88,
         crime_type = ''Theft'', crime_raw = theft_row\<rparr>"
    by (simp add: pushed_record_def row_label_def)
       (simp add: theft_row_def parse_examples trim_Theft)
  have one: "crimeData (loadCrimeData (FileStream [theft_row] Ended) initial_store)
             = [pushed_record 0 theft_row]"
    unfolding loadCrimeData_end by (simp add: load_rows_pushed example_rows)
  show "crimeData (loadCrimeData (FileStream [theft_row] Ended) initial_store)
     = [\<lparr>crime_id = ''crime_1'', crime_latitude = Fin 26.85, crime_longitude = Fin 80.88,
         crime_type = ''Theft'', crime_raw = theft_row\<rparr>]"
    unfolding one rec ..
qed

text \<open>
  C6, evaluated where the code departs from it. The label of \<open>space_row\<close> is a single
  space, so it is blank, and the specification asks for the label \<open>Unknown\<close>. The
  handler tests the label before it trims it: the space passes the test, and the record is
  stored with the empty label.
\<close>

theorem loadCrimeData_space_label:
  "row_accepted space_row
   \<and> blank '' ''
   \<and> crime_type (accepted_record (0, space_row)) = ''Unknown''
   \<and> crimeData (loadCrimeData (FileStream [space_row] Ended) initial_store)
       = [\<lparr>crime_id = ''crime_1'', crime_latitude = Fin 26.85, crime_longitude = Fin 80.88,
           crime_type = [], crime_raw = space_row\<rparr>]"
proof -
  have b: "blank '' ''"
    by (simp add: blank_def is_ws_def)
  have want: "crime_type (accepted_record (0, space_row)) = ''Unknown''"
    by (simp add: accepted_record_def space_row_def b)
  have rec: "pushed_record 0 space_row
        = \<lparr>crime_id = ''crime_1'', crime_latitude = Fin 26.85, crime_longitude = Fin 80.88,
         crime_type = [], crime_raw = space_row\<rparr>"
    by (simp add: pushed_record_def row_label_def)
       (simp add: space_row_def parse_examples trim_def is_ws_def)
  have one: "crimeData (loadCrimeData (FileStream [space_row] Ended) initial_store)
             = [pushed_record 0 space_row]"
    unfolding loadCrimeData_end by (simp add: load_rows_pushed example_rows)
  have got: "crimeData (loadCrimeData (FileStream [space_row] Ended) initial_store)
       = [\<lparr>crime_id = ''crime_1'', crime_latitude = Fin 26.85, crime_longitude = Fin 80.88,
           crime_type = [], crime_raw = space_row\<rparr>]"
    unfolding one rec ..
  show ?thesis
    using example_rows(3) b want got by blast
qed

text \<open>
  The part of C7 that the code keeps. With no file, the load resolves with the empty
  list, the collection is empty and the loaded flag is true. When the parser emits an
  error after any rows, the load is rejected with that error, the collection is empty and
  the loaded flag is true. In both cases \<open>getCrimeData\<close> afterwards returns the empty
  list.
\<close>

lemma loadCrimeData_missing_or_parser_error:
  "settled (loadCrimeData FileMissing st) = Some (Resolved [])
   \<and> crimeData (loadCrimeData FileMissing st) = []
   \<and> isDataLoaded (loadCrimeData FileMissing st)
   \<and> getCrimeData (loadCrimeData FileMissing st) = []
   \<and> settled (loadCrimeData (FileStream rows (ParserError e)) st) = Some (Rejected e)
   \<and> crimeData (loadCrimeData (FileStream rows (ParserError e)) st) = []
   \<and> isDataLoaded (loadCrimeData (FileStream rows (ParserError e)) st)
   \<and> getCrimeData (loadCrimeData (FileStream rows (ParserError e)) st) = []"
  unfolding loadCrimeData_error loadCrimeData_missing by (simp add: getCrimeData_def)

text \<open>
  C7, evaluated where the code departs from it. The file exists and reading it fails
  after one row. On the first load the promise stays unsettled and the loaded flag stays
  false. On a later load, after \<open>theft_row\<close> had been loaded, the promise stays
  unsettled, the collection is not reset, and \<open>getCrimeData\<close> still returns the old
  record.
\<close>

theorem loadCrimeData_read_failure:
  "settled (loadCrimeData (FileStream [theft_row] (ReadFailure ''EIO'')) initial_store) = None
   \<and> isDataLoaded (loadCrimeData (FileStream [theft_row] (ReadFailure ''EIO'')) initial_store)
       = False
   \<and> settled (loadCrimeData (FileStream [theft_row] (ReadFailure ''EIO'')) loaded_store) = None
   \<and> crimeData (loadCrimeData (FileStream [theft_row] (ReadFailure ''EIO'')) loaded_store)
       = [accepted_record (0, theft_row)]
   \<and> getCrimeData (loadCrimeData (FileStream [theft_row] (ReadFailure ''EIO'')) loaded_store)
       = [accepted_record (0, theft_row)]"
proof -
  have old: "crimeData loaded_store = [accepted_record (0, theft_row)]" "isDataLoaded loaded_store"
    unfolding loaded_store_def loadCrimeData_end
    by (simp_all add: load_rows_pushed example_rows pushed_theft)
  show ?thesis
    unfolding loadCrimeData_read_failure_pending
    by (simp add: old getCrimeData_def) (simp add: initial_store_def)
qed

text \<open>A reload is its first part, then the row events, then the end of the stream.\<close>

lemma reloadCrimeData_steps:
  "reloadCrimeData (FileStream rows ending) st =
     run_events (stream_events [] ending)
       (run_events (map Data rows) (reloadCrimeData_begin True st))"
  by (cases ending)
     (simp_all add: reloadCrimeData_def reloadCrimeData_begin_def run_events_def)

text \<open>
  C4, as the code has it. \<open>reloadCrimeData\<close> clears the loaded flag before the stream
  is read. After the reload has started and any number of rows has been read,
  \<open>getCrimeData\<close> returns the empty list, while \<open>crimeData\<close> still holds the complete
  prior collection. When the stream ends, \<open>getCrimeData\<close> returns the complete new
  collection; when the stream fails or there is no file, it returns the empty list. So a
  read never sees a partial collection or a mixture of old and new records.
\<close>

theorem reload_reads_empty_then_new:
  "getCrimeData (run_events (map Data (take n rows)) (reloadCrimeData_begin True st)) = []
   \<and> crimeData (run_events (map Data (take n rows)) (reloadCrimeData_begin True st)) = crimeData st
   \<and> reloadCrimeData (FileStream rows ending) st =
       run_events (stream_events [] ending)
         (run_events (map Data rows) (reloadCrimeData_begin True st))
   \<and> getCrimeData (reloadCrimeData (FileStream rows Ended) st) = load_rows rows
   \<and> getCrimeData (reloadCrimeData (FileStream rows (ParserError e)) st) = []
   \<and> getCrimeData (reloadCrimeData (FileStream rows (ReadFailure e)) st) = []
   \<and> getCrimeData (reloadCrimeData FileMissing st) = []"
proof -
  have mid: "getCrimeData (run_events (map Data (take n rows)) (reloadCrimeData_begin True st)) = []
    \<and> crimeData (run_events (map Data (take n rows)) (reloadCrimeData_begin True st)) = crimeData st"
    unfolding reloadCrimeData_begin_def begin_rows by (simp add: getCrimeData_def)
  have fin: "getCrimeData (reloadCrimeData (FileStream rows Ended) st) = load_rows rows
   \<and> getCrimeData (reloadCrimeData (FileStream rows (ParserError e)) st) = []
   \<and> getCrimeData (reloadCrimeData (FileStream rows (ReadFailure e)) st) = []
   \<and> getCrimeData (reloadCrimeData FileMissing st) = []"
    unfolding reloadCrimeData_def loadCrimeData_end loadCrimeData_error loadCrimeData_missing
      loadCrimeData_read_failure_pending
    by (simp add: getCrimeData_def)
  show ?thesis
    using mid fin reloadCrimeData_steps [of rows ending st] by simp
qed

text \<open>
  C4 as stated fails: after one row has been loaded, a read made when a reload has just
  started returns the empty list, which is neither the prior collection (one record) nor
  the new one (two records).
\<close>

theorem reload_read_counterexample:
  "getCrimeData (loadCrimeData (FileStream [theft_row] Ended) initial_store)
     = [accepted_record (0, theft_row)]
   \<and> getCrimeData (reloadCrimeData_begin True
        (loadCrimeData (FileStream [theft_row] Ended) initial_store)) = []
   \<and> getCrimeData (reloadCrimeData (FileStream [theft_row, theft_row] Ended)
        (loadCrimeData (FileStream [theft_row] Ended) initial_store))
     = [accepted_record (0, theft_row), accepted_record (1, theft_row)]"
  unfolding reloadCrimeData_def reloadCrimeData_begin_def loadCrimeData_end
  by (simp add: load_rows_pushed example_rows pushed_theft getCrimeData_def
      loadCrimeData_begin_def)

section \<open>Properties of the crime query route\<close>

lemma parseFloat_10: "parseFloat_string ''10'' = Fin 10"
  by (simp add: parseFloat_string_def is_ws_def is_digit_def digits_value_def
      exponent_part_def scale10_def number_of_decimal_def)

lemma filters_nil: "type_filter ty [] = []" "area_filter a b c [] = []"
  by (simp_all add: type_filter_def area_filter_def split: option.splits)

text \<open>
  C9. Every query with string parameters is answered with status 200. The data are the
  type-filtered collection, filtered by area exactly when \<open>lat\<close>, \<open>lng\<close> and
  \<open>radius\<close> are all supplied and all three parse to numbers; otherwise the area filter
  is ignored and the type-filtered collection is returned as it is.
\<close>

theorem crime_zones_area_filter:
  "zr_status (crime_zones_get q st) = 200
   \<and> zr_data (crime_zones_get q st)
       = (if area_applies q
          then area_filter (parseFloat (cell (q_lat q))) (parseFloat (cell (q_lng q)))
                 (parseFloat (cell (q_radius q))) (type_filter (q_type q) (getCrimeData st))
          else type_filter (q_type q) (getCrimeData st))
   \<and> zr_total (crime_zones_get q st) = length (zr_data (crime_zones_get q st))"
  by (auto simp: crime_zones_get_def area_applies_def Let_def filters_nil)

theorem crime_zones_area_filter_witness:
  "area_applies \<lparr>q_lat = Some ''26.85'', q_lng = Some ''80.88'', q_radius = Some ''10'',
                  q_type = None\<rparr>
   \<and> zr_data (crime_zones_get
        \<lparr>q_lat = Some ''26.85'', q_lng = Some ''80.88'', q_radius = Some ''10'', q_type = None\<rparr>
        loaded_store)
       = [accepted_record (0, theft_row)]
   \<and> \<not> area_applies \<lparr>q_lat = Some ''abc'', q_lng = Some ''80.88'', q_radius = None,
                      q_type = Some ''the''\<rparr>
   \<and> zr_status (crime_zones_get
        \<lparr>q_lat = Some ''abc'', q_lng = Some ''80.88'', q_radius = None, q_type = Some ''the''\<rparr>
        loaded_store) = 200
   \<and> zr_data (crime_zones_get
        \<lparr>q_lat = Some ''abc'', q_lng = Some ''80.88'', q_radius = None, q_type = Some ''the''\<rparr>
        loaded_store)
       = [accepted_record (0, theft_row)]"
proof -
  let ?st = loaded_store
  let ?q1 = "\<lparr>q_lat = Some ''26.85'', q_lng = Some ''80.88'', q_radius = Some ''10'',
              q_type = None\<rparr>"
  let ?q2 = "\<lparr>q_lat = Some ''abc'', q_lng = Some ''80.88'', q_radius = None,
              q_type = Some ''the''\<rparr>"
  have st: "getCrimeData ?st = [accepted_record (0, theft_row)]"
    by (rule loaded_store_data)
  have a1: "area_applies ?q1"
    by (simp add: area_applies_def parse_examples parseFloat_10)
  have a2: "\<not> area_applies ?q2"
    by (simp add: area_applies_def)
  have rec: "crime_latitude (accepted_record (0, theft_row)) = Fin 26.85"
    "crime_longitude (accepted_record (0, theft_row)) = Fin 80.88"
    "crime_type (accepted_record (0, theft_row)) = ''Theft''"
    by (simp_all add: accepted_record_def theft_row_def parse_examples trim_Theft blank_def
        is_ws_def)
  have f1: "area_filter (parseFloat_string ''26.85'') (parseFloat_string ''80.88'')
              (parseFloat_string ''10'') [accepted_record (0, theft_row)]
            = [accepted_record (0, theft_row)]"
    by (simp add: area_filter_def rec calculateDistance_same parse_examples parseFloat_10)
  have f2: "type_filter (Some ''the'') [accepted_record (0, theft_row)]
            = [accepted_record (0, theft_row)]"
    by (simp add: type_filter_def rec toLowerCase_def lower_char_def)
  have d1: "zr_data (crime_zones_get ?q1 ?st) = [accepted_record (0, theft_row)]"
    using crime_zones_area_filter [of ?q1 ?st] a1
    by (simp add: st f1 type_filter_def)
  have d2: "zr_status (crime_zones_get ?q2 ?st) = 200
            \<and> zr_data (crime_zones_get ?q2 ?st) = [accepted_record (0, theft_row)]"
    using crime_zones_area_filter [of ?q2 ?st] a2
    by (simp add: st f2)
  show ?thesis
    using a1 a2 d1 d2 by blast
qed

end
